theory Spec2Isabelle
  imports Main "HOL-Library.Word" "HOL-Library.AList"
begin

section \<open>Go strings, runes and the unicode predicates\<close>

text \<open>
  A Go string is a sequence of bytes; \<open>len\<close> counts bytes. The type \<open>string\<close> of HOL
  is a list of 8-bit characters, so it is used for Go strings as it is. A rune is a
  Unicode code point, a natural number here.
\<close>

type_synonym rune = nat

definition RuneError :: rune where
  "RuneError = 0xFFFD"

text \<open>
  \<open>utf8.DecodeRuneInString\<close> of the Go library on the byte values of a string: the
  rune at the front and its width in bytes. An invalid or truncated encoding gives
  \<open>RuneError\<close> with width 1. The bounds on the second byte are the library's accept
  ranges (they exclude overlong forms, surrogates and values above U+10FFFF).
\<close>

definition DecodeRune :: "nat list \<Rightarrow> rune \<times> nat" where
  "DecodeRune s =
     (case s of [] \<Rightarrow> (RuneError, 0) | s0 # t \<Rightarrow>
      if s0 < 0x80 then (s0, 1)
      else if s0 < 0xC2 \<or> 0xF5 \<le> s0 then (RuneError, 1)
      else
        let sz = (if s0 < 0xE0 then 2 else if s0 < 0xF0 then 3 else 4 :: nat);
            lo = (if s0 = 0xE0 then 0xA0 else if s0 = 0xF0 then 0x90 else 0x80 :: nat);
            hi = (if s0 = 0xED then 0x9F else if s0 = 0xF4 then 0x8F else 0xBF :: nat)
        in if length (s0 # t) < sz then (RuneError, 1)
           else
             let s1 = t ! 0 in
             if s1 < lo \<or> hi < s1 then (RuneError, 1)
             else if sz \<le> 2 then ((s0 mod 32) * 64 + s1 mod 64, 2)
             else
               let s2 = t ! 1 in
               if s2 < 0x80 \<or> 0xBF < s2 then (RuneError, 1)
               else if sz \<le> 3
                 then ((s0 mod 16) * 4096 + (s1 mod 64) * 64 + s2 mod 64, 3)
               else
                 let s3 = t ! 2 in
                 if s3 < 0x80 \<or> 0xBF < s3 then (RuneError, 1)
                 else ((s0 mod 8) * 262144 + (s1 mod 64) * 4096
                       + (s2 mod 64) * 64 + s3 mod 64, 4))"

text \<open>The conversion \<open>[]rune(s)\<close>: decode rune after rune until the bytes are used up.\<close>

function runes_of_bytes :: "nat list \<Rightarrow> rune list" where
  "runes_of_bytes [] = []"
| "runes_of_bytes (s0 # t) =
     fst (DecodeRune (s0 # t)) # runes_of_bytes (drop (snd (DecodeRune (s0 # t)) - 1) t)"
  by pat_completeness auto
termination
  by (relation "measure length") auto

definition runes :: "string \<Rightarrow> rune list" where
  "runes s = runes_of_bytes (map of_char s)"

text \<open>
  The predicates of Go's \<open>unicode\<close> package. Up to U+00FF the library answers from its
  Latin-1 property table, written out here; above it searches the range tables of the
  Unicode database, which are a parameter of the model.
\<close>

record range_tables =
  Digit :: "rune \<Rightarrow> bool"
  Lower :: "rune \<Rightarrow> bool"
  Upper :: "rune \<Rightarrow> bool"

definition MaxLatin1 :: rune where
  "MaxLatin1 = 0xFF"

definition unicode_IsDigit :: "range_tables \<Rightarrow> rune \<Rightarrow> bool" where
  "unicode_IsDigit T r =
     (if r \<le> MaxLatin1 then 0x30 \<le> r \<and> r \<le> 0x39 else Digit T r)"

definition unicode_IsLower :: "range_tables \<Rightarrow> rune \<Rightarrow> bool" where
  "unicode_IsLower T r =
     (if r \<le> MaxLatin1
      then (0x61 \<le> r \<and> r \<le> 0x7A) \<or> r = 0xB5 \<or> (0xDF \<le> r \<and> r \<le> 0xF6)
           \<or> (0xF8 \<le> r \<and> r \<le> 0xFF)
      else Lower T r)"

definition unicode_IsUpper :: "range_tables \<Rightarrow> rune \<Rightarrow> bool" where
  "unicode_IsUpper T r =
     (if r \<le> MaxLatin1
      then (0x41 \<le> r \<and> r \<le> 0x5A) \<or> (0xC0 \<le> r \<and> r \<le> 0xD6)
           \<or> (0xD8 \<le> r \<and> r \<le> 0xDE)
      else Upper T r)"

section \<open>The validator: checkName and checkPassword\<close>

text \<open>
  An argument of type \<open>*wrappers.StringValue\<close> is \<open>None\<close> for the nil pointer and
  \<open>Some s\<close> otherwise. The result is the message of the returned error, \<open>None\<close> for nil.
\<close>

subsection \<open>checkName\<close>

text \<open>
  The pattern of checkName is \<open>^[0-9A-Za-z-.:_]+$\<close>: one bracket expression, repeated
  at least once, between the anchors of the whole text. In Go's syntax a hyphen that
  does not stand between two range ends is a literal, so the bracket expression has
  three ranges and the four single characters hyphen, dot, colon and underscore. The
  matcher reads the text rune by rune.
\<close>

datatype class_item = Single rune | Range rune rune

fun item_mem :: "rune \<Rightarrow> class_item \<Rightarrow> bool" where
  "item_mem r (Single c) = (r = c)"
| "item_mem r (Range lo hi) = (lo \<le> r \<and> r \<le> hi)"

definition class_mem :: "class_item list \<Rightarrow> rune \<Rightarrow> bool" where
  "class_mem cls r = list_ex (item_mem r) cls"

definition name_class :: "class_item list" where
  "name_class =
     [Range (of_char CHR ''0'') (of_char CHR ''9''),
      Range (of_char CHR ''A'') (of_char CHR ''Z''),
      Range (of_char CHR ''a'') (of_char CHR ''z''),
      Single (of_char CHR ''-''), Single (of_char CHR ''.''),
      Single (of_char CHR '':''), Single (of_char CHR ''_'')]"

definition match_whole_plus :: "class_item list \<Rightarrow> string \<Rightarrow> bool" where
  "match_whole_plus cls s = (runes s \<noteq> [] \<and> list_all (class_mem cls) (runes s))"

definition checkName :: "string option \<Rightarrow> string option" where
  "checkName name =
     (case name of
        None \<Rightarrow> Some ''nil''
      | Some v \<Rightarrow>
          if v = '''' then Some ''empty''
          else if v = ''polariadmin'' then Some ''illegal username''
          else if \<not> match_whole_plus name_class v
            then Some ''name contains invalid character''
          else None)"

subsection \<open>checkPassword\<close>

definition spcChar :: string where
  "spcChar = ''!@#$%&*''"

text \<open>
  \<open>strings.Contains(spcChar, string(v))\<close>: \<open>string(v)\<close> is the UTF-8 encoding of the
  rune, one byte exactly when the rune is below 0x80, and \<open>spcChar\<close> holds bytes below
  0x80 only, so the encoding is a substring exactly when the rune is one of its bytes.
\<close>

definition is_special :: "rune \<Rightarrow> bool" where
  "is_special v = (v \<in> set (map of_char spcChar))"

definition char_flag :: "range_tables \<Rightarrow> rune \<Rightarrow> string" where
  "char_flag T v =
     (if unicode_IsDigit T v then ''Number''
      else if unicode_IsLower T v then ''LowerCaseLetter''
      else if unicode_IsUpper T v then ''UpperCaseLetter''
      else if is_special v then ''SpecialCharacter''
      else ''OtherCharacter'')"

text \<open>
  The loop \<open>for k, v := range []rune(password)\<close> writes \<open>flag[k]\<close>; the index never
  leaves the slice, which has one slot per byte and there are no more runes than bytes.
\<close>

fun fill_flags :: "range_tables \<Rightarrow> string list \<Rightarrow> nat \<Rightarrow> rune list \<Rightarrow> string list" where
  "fill_flags T flag k [] = flag"
| "fill_flags T flag k (v # vs) = fill_flags T (flag[k := char_flag T v]) (Suc k) vs"

definition checkPassword :: "range_tables \<Rightarrow> string option \<Rightarrow> string option" where
  "checkPassword T password =
     (case password of
        None \<Rightarrow> Some ''nil''
      | Some v \<Rightarrow>
          if v = '''' then Some ''empty''
          else if length v < 6 \<or> length v > 17 then Some ''password len need 6 ~ 17''
          else
            let flag = fill_flags T (replicate (length v) '''') 0 (runes v);
                cpx = set flag
            in if card cpx < 2 then Some ''password security is so low'' else None)"

section \<open>The user store: errors, entities, tables\<close>

text \<open>
  An error of the store is a status error made by \<open>store.NewStatusError\<close>, the sentinel
  \<open>sql.ErrNoRows\<close>, or an error of the database driver with its message. A run-time
  panic of Go is kept as an error value of its own.
\<close>

datatype StatusCode = EmptyParamsErr | AffectedRowsNotMatch | OtherStatus nat

datatype err =
    StatusError StatusCode string
  | ErrNoRows
  | DriverError string
  | Panic string

datatype PrincipalType = PrincipalUser | PrincipalUserGroup

text \<open>
  \<open>model.User\<close> with the fields this file reads and writes. A \<open>time.Time\<close> is a number of
  seconds since the Unix epoch, the resolution of the \<open>ctime\<close> and \<open>mtime\<close> columns;
  \<open>zero_time\<close> is the zero value of \<open>time.Time\<close>, the first second of year 1.
\<close>

record User =
  ID :: string
  Name :: string
  Password :: string
  Owner :: string
  Source :: string
  Token :: string
  TokenEnable :: bool
  Type :: int
  Comment :: string
  Valid :: bool
  CreateTime :: int
  ModifyTime :: int

definition zero_time :: int where
  "zero_time = - 62135596800"

definition new_User :: User where
  "new_User = \<lparr>ID = '''', Name = '''', Password = '''', Owner = '''', Source = '''',
     Token = '''', TokenEnable = False, Type = 0, Comment = '''', Valid = False,
     CreateTime = zero_time, ModifyTime = zero_time\<rparr>"

text \<open>
  The tables, with the columns the statements of this file name. A row of
  \<open>auth_strategy_resource\<close> has its \<open>strategy_id\<close> and the rest of the binding in one
  field. The columns of \<open>auth_principal\<close> are those of the INSERT in
  createDefaultStrategy.
\<close>

record user_row =
  u_id :: string
  u_name :: string
  u_password :: string
  u_owner :: string
  u_source :: string
  u_token :: string
  u_comment :: string
  u_flag :: int
  u_user_type :: int
  u_token_enable :: int
  u_ctime :: int
  u_mtime :: int

record user_group_relation_row =
  ug_user_id :: string
  ug_group_id :: string
  ug_flag :: int

record auth_strategy_row =
  s_id :: string
  s_name :: string
  s_action :: string
  s_owner :: string
  s_comment :: string
  s_flag :: int
  s_default :: bool
  s_revision :: string

record auth_strategy_resource_row =
  r_strategy_id :: string
  r_resource :: string

record auth_principal_row =
  p_strategy_id :: string
  p_principal_id :: string
  p_principal_role :: PrincipalType

record db =
  users :: "user_row list"
  user_group_relation :: "user_group_relation_row list"
  auth_strategy :: "auth_strategy_row list"
  auth_strategy_resource :: "auth_strategy_resource_row list"
  auth_principal :: "auth_principal_row list"

definition auth_principal_columns :: "string list" where
  "auth_principal_columns = [''strategy_id'', ''principal_id'', ''principal_role'']"

definition auth_principal_id_column :: "string \<Rightarrow> auth_principal_row \<Rightarrow> string" where
  "auth_principal_id_column col r =
     (if col = ''strategy_id'' then p_strategy_id r else p_principal_id r)"

subsection \<open>Queries and statements\<close>

text \<open>
  A predicate that the list queries append to their WHERE clause, with its argument:
  \<open>k like ?\<close>, \<open>k = ?\<close>, and \<open>(id = ? OR owner = ?)\<close>.
\<close>

datatype cond = Like string string | Eq string string | IdOrOwner string

datatype query =
    SelectUserByID string
  | SelectUserByName string string
  | SelectUsersByIDs "string list"
  | SelectUsersForCache "int option"
  | SelectUsers "cond list" "32 word" "32 word"
  | SelectGroupUsers "cond list" "32 word" "32 word"

datatype count_query = CountUsers "cond list" | CountGroupUsers "cond list"

text \<open>
  The statements of this file, each with its arguments in the order of its
  placeholders:
  \<^item> \<open>CleanUser name\<close>: \<^verbatim>\<open>delete from user where name = ? and flag = 1\<close>
  \<^item> \<open>InsertUser id name password owner source token comment flag user_type\<close>:
    \<^verbatim>\<open>INSERT INTO user(id, name, password, owner, source, token, comment, flag, user_type, ctime, mtime) VALUES (?,?,?,?,?,?,?,?,?,sysdate(),sysdate())\<close>
  \<^item> \<open>InsertStrategy id name action owner comment flag default revision\<close>:
    \<^verbatim>\<open>INSERT INTO auth_strategy(id, name, action, owner, comment, flag, default, revision) VALUES (?,?,?,?,?,?,?,?)\<close>
  \<^item> \<open>InsertPrincipal strategy_id principal_id principal_role\<close>:
    \<^verbatim>\<open>INSERT INTO auth_principal(strategy_id, principal_id, principal_role) VALUES (?,?,?)\<close>
  \<^item> \<open>ModifyUser password token comment token_enable id\<close>:
    \<^verbatim>\<open>UPDATE user SET password = ?, token = ?, comment = ?, token_enable = ? WHERE id = ? AND flag = 0\<close>
  \<^item> \<open>FlagUser id\<close>: \<^verbatim>\<open>UPDATE user SET flag = 1 WHERE id = ?\<close>
  \<^item> \<open>FlagUserGroupRelation id\<close>:
    \<^verbatim>\<open>UPDATE user_group_relation SET flag = 1 WHERE user_id = ?\<close>
  \<^item> \<open>FlagStrategy name\<close>: \<^verbatim>\<open>UPDATE auth_strategy SET flag = 1 WHERE name = ?\<close>
  \<^item> \<open>DeleteStrategyResources name\<close>:
    \<^verbatim>\<open>DELETE FROM auth_strategy_resource WHERE strategy_id = (SELECT id FROM auth_strategy WHERE name = ?)\<close>
  \<^item> \<open>DeleteStrategyPrincipals name\<close>:
    \<^verbatim>\<open>DELETE FROM auth_principal WHERE strategy_id = (SELECT id FROM auth_strategy WHERE name = ?)\<close>
  \<^item> \<open>DeletePrincipals col id role\<close>:
    \<^verbatim>\<open>DELETE FROM auth_principal WHERE col = ? AND principal_role = ?\<close>
    with the name of the first column as the statement spells it.
\<close>

datatype stmt =
    CleanUser string
  | InsertUser string string string string string string string int int
  | InsertStrategy string string string string string int bool string
  | InsertPrincipal string string PrincipalType
  | ModifyUser string string string int string
  | FlagUser string
  | FlagUserGroupRelation string
  | FlagStrategy string
  | DeleteStrategyResources string
  | DeleteStrategyPrincipals string
  | DeletePrincipals string string PrincipalType

subsection \<open>What lies outside the two files\<close>

text \<open>
  Functions, constants and settings that this file uses and that are declared elsewhere
  (other packages of the repository, the table declarations, the connection settings)
  are parameters of the model:
  \<^item> \<open>BuildDefaultStrategyName\<close>: \<open>model.BuildDefaultStrategyName(id, role)\<close>;
  \<^item> \<open>store_wrap\<close>: what \<open>store.Error\<close> makes of an error that is not nil;
  \<^item> \<open>retryable\<close>, \<open>max_attempts\<close>: which errors RetryTransaction retries, and how often;
  \<^item> \<open>uuid_gen\<close>: the values \<open>utils.NewUUID\<close> returns, call after call;
  \<^item> \<open>IsWildName\<close>: \<open>utils.IsWildName\<close>;
  \<^item> \<open>OwnerAttribute\<close>, \<open>NameAttribute\<close>, \<open>GroupIDAttribute\<close>: the package's constants;
  \<^item> \<open>client_found_rows\<close>: whether the driver reports for an UPDATE the rows matched
    (true) or the rows changed (false, the default of MySQL);
  \<^item> \<open>token_enable_default\<close>: the column default of \<open>user.token_enable\<close>;
  \<^item> \<open>mtime_on_update\<close>: whether the table sets \<open>user.mtime\<close> to the current time when
    an UPDATE changes a row;
  \<^item> \<open>list_rows\<close>, \<open>count_rows\<close>: the rows and the count the database answers to the
    two list queries, whose predicates name columns chosen by the caller.
\<close>

record externals =
  BuildDefaultStrategyName :: "string \<Rightarrow> PrincipalType \<Rightarrow> string"
  store_wrap :: "err \<Rightarrow> err"
  retryable :: "err \<Rightarrow> bool"
  max_attempts :: nat
  uuid_gen :: "nat \<Rightarrow> string"
  IsWildName :: "string \<Rightarrow> bool"
  OwnerAttribute :: string
  NameAttribute :: string
  GroupIDAttribute :: string
  client_found_rows :: bool
  token_enable_default :: int
  mtime_on_update :: bool
  list_rows :: "db \<Rightarrow> query \<Rightarrow> user_row list"
  count_rows :: "db \<Rightarrow> count_query \<Rightarrow> nat"

text \<open>
  Modelled from the spec: \<open>store.Error\<close> is not among the files at hand. It maps nil to
  nil and wraps any other error with a status code.
\<close>

definition store_Error :: "externals \<Rightarrow> err option \<Rightarrow> err option" where
  "store_Error X e = map_option (store_wrap X) e"

subsection \<open>The meaning of the statements\<close>

text \<open>
  An UPDATE rewrites the rows its WHERE clause selects and reports a number of affected
  rows: the rows selected, or those among them that the statement changed.
\<close>

definition update_where ::
  "bool \<Rightarrow> ('r \<Rightarrow> bool) \<Rightarrow> ('r \<Rightarrow> 'r) \<Rightarrow> 'r list \<Rightarrow> nat \<times> 'r list" where
  "update_where found P f rs =
     (length (filter (\<lambda>r. P r \<and> (found \<or> f r \<noteq> r)) rs),
      map (\<lambda>r. if P r then f r else r) rs)"

definition delete_where :: "('r \<Rightarrow> bool) \<Rightarrow> 'r list \<Rightarrow> nat \<times> 'r list" where
  "delete_where P rs = (length (filter P rs), filter (\<lambda>r. \<not> P r) rs)"

definition touch :: "externals \<Rightarrow> int \<Rightarrow> (user_row \<Rightarrow> user_row) \<Rightarrow> user_row \<Rightarrow> user_row" where
  "touch X now f r =
     (if mtime_on_update X \<and> f r \<noteq> r then (f r)\<lparr>u_mtime := now\<rparr> else f r)"

text \<open>
  A scalar subquery \<open>(SELECT id FROM auth_strategy WHERE name = ?)\<close>: no row gives NULL,
  which equals nothing; more than one row is an error of the statement.
\<close>

definition strategy_id_by_name :: "db \<Rightarrow> string \<Rightarrow> err + string option" where
  "strategy_id_by_name d n =
     (case map s_id (filter (\<lambda>s. s_name s = n) (auth_strategy d)) of
        [] \<Rightarrow> Inr None
      | [i] \<Rightarrow> Inr (Some i)
      | _ \<Rightarrow> Inl (DriverError ''Subquery returns more than 1 row''))"

fun exec_stmt :: "externals \<Rightarrow> int \<Rightarrow> stmt \<Rightarrow> db \<Rightarrow> err + nat \<times> db" where
  "exec_stmt X now (CleanUser n) d =
     (case delete_where (\<lambda>r. u_name r = n \<and> u_flag r = 1) (users d) of
        (k, rs) \<Rightarrow> Inr (k, d\<lparr>users := rs\<rparr>))"
| "exec_stmt X now (InsertUser i n pw ow so tk co fl ty) d =
     Inr (1, d\<lparr>users := users d @
       [\<lparr>u_id = i, u_name = n, u_password = pw, u_owner = ow, u_source = so,
         u_token = tk, u_comment = co, u_flag = fl, u_user_type = ty,
         u_token_enable = token_enable_default X, u_ctime = now, u_mtime = now\<rparr>]\<rparr>)"
| "exec_stmt X now (InsertStrategy i n ac ow co fl df rv) d =
     Inr (1, d\<lparr>auth_strategy := auth_strategy d @
       [\<lparr>s_id = i, s_name = n, s_action = ac, s_owner = ow, s_comment = co,
         s_flag = fl, s_default = df, s_revision = rv\<rparr>]\<rparr>)"
| "exec_stmt X now (InsertPrincipal si pi ro) d =
     Inr (1, d\<lparr>auth_principal := auth_principal d @
       [\<lparr>p_strategy_id = si, p_principal_id = pi, p_principal_role = ro\<rparr>]\<rparr>)"
| "exec_stmt X now (ModifyUser pw tk co te i) d =
     (case update_where (client_found_rows X) (\<lambda>r. u_id r = i \<and> u_flag r = 0)
             (touch X now (\<lambda>r. r\<lparr>u_password := pw, u_token := tk, u_comment := co,
                                   u_token_enable := te\<rparr>)) (users d) of
        (k, rs) \<Rightarrow> Inr (k, d\<lparr>users := rs\<rparr>))"
| "exec_stmt X now (FlagUser i) d =
     (case update_where (client_found_rows X) (\<lambda>r. u_id r = i)
             (touch X now (\<lambda>r. r\<lparr>u_flag := 1\<rparr>)) (users d) of
        (k, rs) \<Rightarrow> Inr (k, d\<lparr>users := rs\<rparr>))"
| "exec_stmt X now (FlagUserGroupRelation i) d =
     (case update_where (client_found_rows X) (\<lambda>r. ug_user_id r = i)
             (\<lambda>r. r\<lparr>ug_flag := 1\<rparr>) (user_group_relation d) of
        (k, rs) \<Rightarrow> Inr (k, d\<lparr>user_group_relation := rs\<rparr>))"
| "exec_stmt X now (FlagStrategy n) d =
     (case update_where (client_found_rows X) (\<lambda>s. s_name s = n)
             (\<lambda>s. s\<lparr>s_flag := 1\<rparr>) (auth_strategy d) of
        (k, rs) \<Rightarrow> Inr (k, d\<lparr>auth_strategy := rs\<rparr>))"
| "exec_stmt X now (DeleteStrategyResources n) d =
     (case strategy_id_by_name d n of
        Inl e \<Rightarrow> Inl e
      | Inr None \<Rightarrow> Inr (0, d)
      | Inr (Some i) \<Rightarrow>
          (case delete_where (\<lambda>r. r_strategy_id r = i) (auth_strategy_resource d) of
             (k, rs) \<Rightarrow> Inr (k, d\<lparr>auth_strategy_resource := rs\<rparr>)))"
| "exec_stmt X now (DeleteStrategyPrincipals n) d =
     (case strategy_id_by_name d n of
        Inl e \<Rightarrow> Inl e
      | Inr None \<Rightarrow> Inr (0, d)
      | Inr (Some i) \<Rightarrow>
          (case delete_where (\<lambda>r. p_strategy_id r = i) (auth_principal d) of
             (k, rs) \<Rightarrow> Inr (k, d\<lparr>auth_principal := rs\<rparr>)))"
| "exec_stmt X now (DeletePrincipals col i ro) d =
     (if col \<notin> set auth_principal_columns
      then Inl (DriverError (''Unknown column '' @ col))
      else
        (case delete_where (\<lambda>r. auth_principal_id_column col r = i \<and> p_principal_role r = ro)
                (auth_principal d) of
           (k, rs) \<Rightarrow> Inr (k, d\<lparr>auth_principal := rs\<rparr>)))"

text \<open>
  The rows a query selects, in the order of the table. Strings are compared byte by
  byte. The two list queries are answered by the database parameter.
\<close>

fun run_query :: "externals \<Rightarrow> query \<Rightarrow> db \<Rightarrow> user_row list" where
  "run_query X (SelectUserByID i) d =
     filter (\<lambda>u. u_flag u = 0 \<and> u_name u \<noteq> ''polariadmin'' \<and> u_id u = i) (users d)"
| "run_query X (SelectUserByName n ow) d =
     filter (\<lambda>u. u_flag u = 0 \<and> u_name u \<noteq> ''polariadmin'' \<and> u_name u = n \<and> u_owner u = ow)
       (users d)"
| "run_query X (SelectUsersByIDs ids) d =
     filter (\<lambda>u. u_flag u = 0 \<and> u_name u \<noteq> ''polarisadmin'' \<and> u_id u \<in> set ids) (users d)"
| "run_query X (SelectUsersForCache None) d = users d"
| "run_query X (SelectUsersForCache (Some t)) d = filter (\<lambda>u. u_mtime u \<ge> t) (users d)"
| "run_query X (SelectUsers cs off lim) d = list_rows X d (SelectUsers cs off lim)"
| "run_query X (SelectGroupUsers cs off lim) d = list_rows X d (SelectGroupUsers cs off lim)"

section \<open>The database handle and its failures\<close>

text \<open>
  The state the store runs in: the committed tables, a script of failures, the clock of
  \<open>sysdate()\<close>, the number of identifiers \<open>utils.NewUUID\<close> has handed out, and a log of
  the calls made on the database handle.

  Every call on the handle takes the next entry of the script: \<open>Some e\<close> makes the call
  fail with \<open>e\<close> (a lost connection, a deadlock, a violated constraint), \<open>None\<close> or an
  exhausted script lets it run.
\<close>

datatype event = EvBegin | EvCommit | EvExec stmt | EvTxExec stmt

record world =
  w_db :: db
  w_faults :: "err option list"
  w_now :: int
  w_uuids :: nat
  w_log :: "event list"

definition next_fault :: "world \<Rightarrow> err option \<times> world" where
  "next_fault w =
     (case w_faults w of [] \<Rightarrow> (None, w) | f # fs \<Rightarrow> (f, w\<lparr>w_faults := fs\<rparr>))"

definition log_event :: "event \<Rightarrow> world \<Rightarrow> world" where
  "log_event ev w = w\<lparr>w_log := w_log w @ [ev]\<rparr>"

text \<open>\<open>u.master.Exec\<close>: one statement, committed at once. The result is the number of
  affected rows of \<open>sql.Result\<close>.\<close>

definition master_Exec :: "externals \<Rightarrow> stmt \<Rightarrow> world \<Rightarrow> (err + nat) \<times> world" where
  "master_Exec X st w =
     (case next_fault (log_event (EvExec st) w) of
        (Some e, w1) \<Rightarrow> (Inl e, w1)
      | (None, w1) \<Rightarrow>
          (case exec_stmt X (w_now w1) st (w_db w1) of
             Inl e \<Rightarrow> (Inl e, w1)
           | Inr (n, d) \<Rightarrow> (Inr n, w1\<lparr>w_db := d\<rparr>)))"

text \<open>
  A transaction works on its own copy of the tables, taken by \<open>Begin\<close>; \<open>Commit\<close>
  installs the copy. The deferred \<open>tx.Rollback()\<close> drops the copy when the function
  returns without a commit and does nothing after one, so a function that returns
  before its commit leaves the committed tables as they were.
\<close>

definition master_Begin :: "world \<Rightarrow> (err + db) \<times> world" where
  "master_Begin w =
     (case next_fault (log_event EvBegin w) of
        (Some e, w1) \<Rightarrow> (Inl e, w1)
      | (None, w1) \<Rightarrow> (Inr (w_db w1), w1))"

definition tx_Exec :: "externals \<Rightarrow> stmt \<Rightarrow> db \<Rightarrow> world \<Rightarrow> (err + nat \<times> db) \<times> world" where
  "tx_Exec X st tx w =
     (case next_fault (log_event (EvTxExec st) w) of
        (Some e, w1) \<Rightarrow> (Inl e, w1)
      | (None, w1) \<Rightarrow> (exec_stmt X (w_now w1) st tx, w1))"

definition tx_Commit :: "db \<Rightarrow> world \<Rightarrow> err option \<times> world" where
  "tx_Commit tx w =
     (case next_fault (log_event EvCommit w) of
        (Some e, w1) \<Rightarrow> (Some e, w1)
      | (None, w1) \<Rightarrow> (None, w1\<lparr>w_db := tx\<rparr>))"

text \<open>\<open>u.master.Query\<close> gives the rows of a query; \<open>QueryRow\<close> with \<open>Scan\<close> gives the
  first row, and \<open>sql.ErrNoRows\<close> when there is none.\<close>

definition master_Query :: "externals \<Rightarrow> query \<Rightarrow> world \<Rightarrow> (err + user_row list) \<times> world" where
  "master_Query X q w =
     (case next_fault w of
        (Some e, w1) \<Rightarrow> (Inl e, w1)
      | (None, w1) \<Rightarrow> (Inr (run_query X q (w_db w1)), w1))"

definition master_QueryRow :: "externals \<Rightarrow> query \<Rightarrow> world \<Rightarrow> (err + user_row) \<times> world" where
  "master_QueryRow X q w =
     (case next_fault w of
        (Some e, w1) \<Rightarrow> (Inl e, w1)
      | (None, w1) \<Rightarrow>
          (case run_query X q (w_db w1) of
             [] \<Rightarrow> (Inl ErrNoRows, w1)
           | r # _ \<Rightarrow> (Inr r, w1)))"

text \<open>
  Modelled from the spec: \<open>queryEntryCount\<close> is not among the files at hand. It runs
  the count query and returns the count as a \<open>uint32\<close>, or the error of the query.
\<close>

definition queryEntryCount ::
  "externals \<Rightarrow> count_query \<Rightarrow> world \<Rightarrow> (err + 32 word) \<times> world" where
  "queryEntryCount X q w =
     (case next_fault w of
        (Some e, w1) \<Rightarrow> (Inl e, w1)
      | (None, w1) \<Rightarrow> (Inr (of_nat (count_rows X (w_db w1) q)), w1))"

definition NewUUID :: "externals \<Rightarrow> world \<Rightarrow> string \<times> world" where
  "NewUUID X w = (uuid_gen X (w_uuids w), w\<lparr>w_uuids := Suc (w_uuids w)\<rparr>)"

text \<open>
  Modelled from the spec: \<open>RetryTransaction\<close> is not among the files at hand. It runs
  the handle; a failure that is transient is retried, up to a bound on the number of
  attempts, after which the last error is returned; success and any other error are
  returned at once.
\<close>

fun retry_loop ::
  "externals \<Rightarrow> nat \<Rightarrow> (world \<Rightarrow> err option \<times> world) \<Rightarrow> err option \<Rightarrow> world
     \<Rightarrow> err option \<times> world" where
  "retry_loop X 0 handle err w = (err, w)"
| "retry_loop X (Suc n) handle err w =
     (case handle w of
        (None, w1) \<Rightarrow> (None, w1)
      | (Some e, w1) \<Rightarrow>
          if retryable X e then retry_loop X n handle (Some e) w1 else (Some e, w1))"

text \<open>The first attempt starts with no error at hand.\<close>

definition RetryTransaction ::
  "externals \<Rightarrow> (world \<Rightarrow> err option \<times> world) \<Rightarrow> world \<Rightarrow> err option \<times> world" where
  "RetryTransaction X handle w = retry_loop X (max_attempts X) handle None w"

section \<open>The operations of the user store\<close>

definition cleanInValidUser :: "externals \<Rightarrow> string \<Rightarrow> world \<Rightarrow> err option \<times> world" where
  "cleanInValidUser X name w =
     (case master_Exec X (CleanUser name) w of
        (Inl e, w1) \<Rightarrow> (Some e, w1)
      | (Inr _, w1) \<Rightarrow> (None, w1))"

text \<open>\<open>api.AuthAction_READ_WRITE.String()\<close>, the name of the enumeration value.\<close>

definition READ_WRITE :: string where
  "READ_WRITE = ''READ_WRITE''"

definition createDefaultStrategy ::
  "externals \<Rightarrow> db \<Rightarrow> PrincipalType \<Rightarrow> string \<Rightarrow> string \<Rightarrow> world \<Rightarrow> (err + db) \<times> world" where
  "createDefaultStrategy X tx role i owner w =
     (let (sid, w1) = NewUUID X w;
          (revision, w2) = NewUUID X w1
      in
      case tx_Exec X (InsertStrategy sid (BuildDefaultStrategyName X i role) READ_WRITE owner
                        ''default user auth_strategy'' 0 True revision) tx w2 of
        (Inl e, w3) \<Rightarrow> (Inl e, w3)
      | (Inr (_, tx1), w3) \<Rightarrow>
          (case tx_Exec X (InsertPrincipal sid i role) tx1 w3 of
             (Inl e, w4) \<Rightarrow> (Inl e, w4)
           | (Inr (_, tx2), w4) \<Rightarrow> (Inr tx2, w4)))"

definition addUser :: "externals \<Rightarrow> User \<Rightarrow> world \<Rightarrow> err option \<times> world" where
  "addUser X user w =
     (case master_Begin w of
        (Inl e, w1) \<Rightarrow> (Some e, w1)
      | (Inr tx, w1) \<Rightarrow>
          (case tx_Exec X (InsertUser (ID user) (Name user) (Password user) (Owner user)
                             (Source user) (Token user) (Comment user) 0 (Type user)) tx w1 of
             (Inl e, w2) \<Rightarrow> (Some e, w2)
           | (Inr (_, tx1), w2) \<Rightarrow>
               (case createDefaultStrategy X tx1 PrincipalUser (ID user) (Owner user) w2 of
                  (Inl e, w3) \<Rightarrow> (store_Error X (Some e), w3)
                | (Inr tx2, w3) \<Rightarrow> tx_Commit tx2 w3)))"

definition AddUser :: "externals \<Rightarrow> User \<Rightarrow> world \<Rightarrow> err option \<times> world" where
  "AddUser X user w =
     (if ID user = '''' \<or> Name user = '''' \<or> Token user = '''' \<or> Password user = ''''
      then (Some (StatusError EmptyParamsErr
              (''add user missing some params, id is '' @ ID user @ '', name is '' @ Name user)), w)
      else
        (case cleanInValidUser X (Name user) w of
           (Some e, w1) \<Rightarrow> (Some e, w1)
         | (None, w1) \<Rightarrow>
             (case RetryTransaction X (addUser X user) w1 of
                (e, w2) \<Rightarrow> (store_Error X e, w2))))"

definition updateUser :: "externals \<Rightarrow> User \<Rightarrow> world \<Rightarrow> err option \<times> world" where
  "updateUser X user w =
     (case master_Begin w of
        (Inl e, w1) \<Rightarrow> (Some e, w1)
      | (Inr tx, w1) \<Rightarrow>
          (let tokenEnable = (if \<not> TokenEnable user then 0 else 1) in
           case tx_Exec X (ModifyUser (Password user) (Token user) (Comment user) tokenEnable
                             (ID user)) tx w1 of
             (Inl e, w2) \<Rightarrow> (Some e, w2)
           | (Inr (_, tx1), w2) \<Rightarrow> tx_Commit tx1 w2))"

definition UpdateUser :: "externals \<Rightarrow> User \<Rightarrow> world \<Rightarrow> err option \<times> world" where
  "UpdateUser X user w =
     (if ID user = '''' \<or> Name user = '''' \<or> Token user = '''' \<or> Password user = ''''
      then (Some (StatusError EmptyParamsErr
              (''update user missing some params, id is '' @ ID user @ '', name is ''
                 @ Name user)), w)
      else
        (case RetryTransaction X (updateUser X user) w of
           (e, w1) \<Rightarrow> (store_Error X e, w1)))"

definition cleanLinkStrategy ::
  "externals \<Rightarrow> db \<Rightarrow> PrincipalType \<Rightarrow> string \<Rightarrow> world \<Rightarrow> (err + db) \<times> world" where
  "cleanLinkStrategy X tx role i w =
     (case tx_Exec X (FlagStrategy (BuildDefaultStrategyName X i PrincipalUserGroup)) tx w of
        (Inl e, w1) \<Rightarrow> (Inl e, w1)
      | (Inr (_, tx1), w1) \<Rightarrow>
     (case tx_Exec X (DeleteStrategyResources
                        (BuildDefaultStrategyName X i PrincipalUserGroup)) tx1 w1 of
        (Inl e, w2) \<Rightarrow> (Inl e, w2)
      | (Inr (_, tx2), w2) \<Rightarrow>
     (case tx_Exec X (DeleteStrategyPrincipals
                        (BuildDefaultStrategyName X i PrincipalUserGroup)) tx2 w2 of
        (Inl e, w3) \<Rightarrow> (Inl e, w3)
      | (Inr (_, tx3), w3) \<Rightarrow>
     (case tx_Exec X (DeletePrincipals ''principa_id'' i PrincipalUserGroup) tx3 w3 of
        (Inl e, w4) \<Rightarrow> (Inl e, w4)
      | (Inr (_, tx4), w4) \<Rightarrow> (Inr tx4, w4)))))"

definition deleteUser :: "externals \<Rightarrow> string \<Rightarrow> world \<Rightarrow> err option \<times> world" where
  "deleteUser X i w =
     (case master_Begin w of
        (Inl e, w1) \<Rightarrow> (Some e, w1)
      | (Inr tx, w1) \<Rightarrow>
     (case tx_Exec X (FlagUser i) tx w1 of
        (Inl e, w2) \<Rightarrow> (Some e, w2)
      | (Inr (_, tx1), w2) \<Rightarrow>
     (case tx_Exec X (FlagUserGroupRelation i) tx1 w2 of
        (Inl e, w3) \<Rightarrow> (Some e, w3)
      | (Inr (_, tx2), w3) \<Rightarrow>
     (case cleanLinkStrategy X tx2 PrincipalUser i w3 of
        (Inl e, w4) \<Rightarrow> (Some e, w4)
      | (Inr tx3, w4) \<Rightarrow> tx_Commit tx3 w4))))"

definition DeleteUser :: "externals \<Rightarrow> string \<Rightarrow> world \<Rightarrow> err option \<times> world" where
  "DeleteUser X userId w =
     (if userId = ''''
      then (Some (StatusError EmptyParamsErr ''delete user id parameter missing''), w)
      else
        (case RetryTransaction X (deleteUser X userId) w of
           (e, w1) \<Rightarrow> (store_Error X e, w1)))"

text \<open>\<open>checkAffectedRows\<close>: the argument is what \<open>result.RowsAffected()\<close> returns, a
  count or an error.\<close>

definition checkAffectedRows :: "string \<Rightarrow> err + int \<Rightarrow> int \<Rightarrow> err option" where
  "checkAffectedRows label result count =
     (case result of
        Inl e \<Rightarrow> Some e
      | Inr n \<Rightarrow>
          if n = count then None
          else Some (StatusError AffectedRowsNotMatch ''affected rows not match''))"

subsection \<open>Reads\<close>

definition scan_user :: "user_row \<Rightarrow> User" where
  "scan_user r = new_User\<lparr>ID := u_id r, Name := u_name r, Password := u_password r,
     Owner := u_owner r, Source := u_source r, Token := u_token r,
     TokenEnable := (u_token_enable r = 1), Type := u_user_type r\<rparr>"

definition GetUser :: "externals \<Rightarrow> string \<Rightarrow> world \<Rightarrow> (err + User option) \<times> world" where
  "GetUser X i w =
     (case master_QueryRow X (SelectUserByID i) w of
        (Inl e, w1) \<Rightarrow>
          (case e of ErrNoRows \<Rightarrow> (Inr None, w1) | _ \<Rightarrow> (Inl (store_wrap X e), w1))
      | (Inr r, w1) \<Rightarrow> (Inr (Some (scan_user r)), w1))"

definition GetUserByName ::
  "externals \<Rightarrow> string \<Rightarrow> string \<Rightarrow> world \<Rightarrow> (err + User option) \<times> world" where
  "GetUserByName X name ownerId w =
     (case master_QueryRow X (SelectUserByName name ownerId) w of
        (Inl e, w1) \<Rightarrow>
          (case e of ErrNoRows \<Rightarrow> (Inr None, w1) | _ \<Rightarrow> (Inl (store_wrap X e), w1))
      | (Inr r, w1) \<Rightarrow> (Inr (Some (scan_user r)), w1))"

definition fetchRown2User :: "user_row \<Rightarrow> User" where
  "fetchRown2User r = new_User\<lparr>ID := u_id r, Name := u_name r, Password := u_password r,
     Owner := u_owner r, Source := u_source r, Token := u_token r,
     Valid := (u_flag r = 0), TokenEnable := (u_token_enable r = 1),
     CreateTime := u_ctime r, ModifyTime := u_mtime r, Type := u_user_type r\<rparr>"

text \<open>A nil slice and an empty slice are both the empty list.\<close>

definition GetUserByIDS :: "externals \<Rightarrow> string list \<Rightarrow> world \<Rightarrow> (err + User list) \<times> world" where
  "GetUserByIDS X ids w =
     (if length ids = 0 then (Inr [], w)
      else
        (case master_Query X (SelectUsersByIDs ids) w of
           (Inl e, w1) \<Rightarrow> (Inl (store_wrap X e), w1)
         | (Inr rows, w1) \<Rightarrow> (Inr (map fetchRown2User rows), w1)))"

definition collectUsers :: "externals \<Rightarrow> query \<Rightarrow> world \<Rightarrow> (err + User list) \<times> world" where
  "collectUsers X q w =
     (case master_Query X q w of
        (Inl e, w1) \<Rightarrow> (Inl (store_wrap X e), w1)
      | (Inr rows, w1) \<Rightarrow> (Inr (map fetchRown2User rows), w1))"

text \<open>
  Modelled from the spec: \<open>commontime.Time2String\<close> is not among the files at hand. It
  writes the time as the text the database compares with \<open>u.mtime\<close>; the comparison
  \<open>u.mtime >= ?\<close> keeps the rows whose modification time is not before the argument,
  so the text stands for the time itself.
\<close>

definition Time2String :: "int \<Rightarrow> int" where
  "Time2String t = t"

definition GetUsersForCache ::
  "externals \<Rightarrow> int \<Rightarrow> bool \<Rightarrow> world \<Rightarrow> (err + User list) \<times> world" where
  "GetUsersForCache X mtime firstUpdate w =
     collectUsers X
       (SelectUsersForCache (if \<not> firstUpdate then Some (Time2String mtime) else None)) w"

subsection \<open>List queries and the filters map\<close>

text \<open>
  The \<open>filters\<close> argument is a Go map from strings to strings, an association list with
  one entry per key here; \<open>map_of\<close> is its lookup. The loop \<open>for k, v := range filters\<close>
  visits the entries in an order the language leaves open, the order of the list here.
  A Go map is a reference: what a function stores in it or deletes from it is seen by
  the caller, so the functions that write to \<open>filters\<close> return it.
\<close>

type_synonym filters = "(string \<times> string) list"

definition userLinkGroupAttributeMapping :: "(string \<times> string) list" where
  "userLinkGroupAttributeMapping =
     [(''user_id'', ''ul.user_id''), (''group_name'', ''ug.name''), (''user_name'', ''u.name'')]"

text \<open>\<open>v[:len(v)-1] + "%"\<close>; the slice expression panics on the empty string.\<close>

definition wild_arg :: "string \<Rightarrow> err + string" where
  "wild_arg v =
     (if v = '''' then Inl (Panic ''slice bounds out of range'') else Inr (butlast v @ ''%''))"

fun collect_conds :: "('a \<Rightarrow> err + cond) \<Rightarrow> 'a list \<Rightarrow> err + cond list" where
  "collect_conds f [] = Inr []"
| "collect_conds f (x # xs) =
     (case f x of
        Inl e \<Rightarrow> Inl e
      | Inr c \<Rightarrow> (case collect_conds f xs of Inl e \<Rightarrow> Inl e | Inr cs \<Rightarrow> Inr (c # cs)))"

definition listUsers_cond :: "externals \<Rightarrow> string \<times> string \<Rightarrow> err + cond" where
  "listUsers_cond X kv =
     (case kv of (k, v) \<Rightarrow>
        if k = NameAttribute X then
          (if IsWildName X v
           then (case wild_arg v of Inl e \<Rightarrow> Inl e | Inr a \<Rightarrow> Inr (Like k a))
           else Inr (Eq k v))
        else if k = OwnerAttribute X then Inr (IdOrOwner v)
        else Inr (Eq k v))"

definition listUsers ::
  "externals \<Rightarrow> filters \<Rightarrow> 32 word \<Rightarrow> 32 word \<Rightarrow> world
     \<Rightarrow> (err + 32 word \<times> User list) \<times> world" where
  "listUsers X filters offset limit w =
     (case collect_conds (listUsers_cond X) filters of
        Inl e \<Rightarrow> (Inl e, w)
      | Inr conds \<Rightarrow>
          (case queryEntryCount X (CountUsers conds) w of
             (Inl e, w1) \<Rightarrow> (Inl (store_wrap X e), w1)
           | (Inr count, w1) \<Rightarrow>
               (case collectUsers X (SelectUsers conds offset limit) w1 of
                  (Inl e, w2) \<Rightarrow> (Inl e, w2)
                | (Inr us, w2) \<Rightarrow> (Inr (count, us), w2))))"

definition listGroupUsers_cond :: "externals \<Rightarrow> string \<times> string \<Rightarrow> err + cond" where
  "listGroupUsers_cond X kv =
     (case kv of (k, v) \<Rightarrow>
        let k1 = (case map_of userLinkGroupAttributeMapping k of Some newK \<Rightarrow> newK | None \<Rightarrow> k)
        in if IsWildName X v
           then (case wild_arg v of Inl e \<Rightarrow> Inl e | Inr a \<Rightarrow> Inr (Like k1 a))
           else Inr (Eq k1 v))"

definition listGroupUsers ::
  "externals \<Rightarrow> filters \<Rightarrow> 32 word \<Rightarrow> 32 word \<Rightarrow> world
     \<Rightarrow> (err + 32 word \<times> User list) \<times> filters \<times> world" where
  "listGroupUsers X filters offset limit w =
     (case map_of filters (GroupIDAttribute X) of
        None \<Rightarrow> (Inl (StatusError EmptyParamsErr ''group_id is missing''), filters, w)
      | Some g \<Rightarrow>
          let filters1 = AList.update ''ug.group_id'' g filters;
              filters2 = AList.delete (GroupIDAttribute X) filters1
          in
          (case collect_conds (listGroupUsers_cond X) filters2 of
             Inl e \<Rightarrow> (Inl e, filters2, w)
           | Inr conds \<Rightarrow>
               (case queryEntryCount X (CountGroupUsers conds) w of
                  (Inl e, w1) \<Rightarrow> (Inl e, filters2, w1)
                | (Inr count, w1) \<Rightarrow>
                    (case collectUsers X (SelectGroupUsers conds offset limit) w1 of
                       (Inl e, w2) \<Rightarrow> (Inl e, filters2, w2)
                     | (Inr us, w2) \<Rightarrow> (Inr (count, us), filters2, w2)))))"

definition GetUsers ::
  "externals \<Rightarrow> filters \<Rightarrow> 32 word \<Rightarrow> 32 word \<Rightarrow> world
     \<Rightarrow> (err + 32 word \<times> User list) \<times> filters \<times> world" where
  "GetUsers X filters offset limit w =
     (case map_of filters ''group_id'' of
        Some _ \<Rightarrow> listGroupUsers X filters offset limit w
      | None \<Rightarrow>
          (case listUsers X filters offset limit w of (r, w1) \<Rightarrow> (r, filters, w1)))"

section \<open>Notions the properties are stated with\<close>

text \<open>The characters the specification allows in a name: \<open>[0-9A-Za-z\-.:_]\<close>.\<close>

definition spec_name_chars :: string where
  "spec_name_chars = ''0123456789ABCDEFGHIJKLMNOPQRSTUVWXYZabcdefghijklmnopqrstuvwxyz-.:_''"

text \<open>The six bytes that encode three times the letter e with acute accent, U+00E9.\<close>

definition e_acute_x3 :: string where
  "e_acute_x3 = [CHR 0xC3, CHR 0xA9, CHR 0xC3, CHR 0xA9, CHR 0xC3, CHR 0xA9]"

text \<open>A row of \<open>user\<close> without the columns that UpdateUser sets, and without \<open>mtime\<close>,
  which the table may maintain by itself.\<close>

definition unset_columns :: "user_row \<Rightarrow> user_row" where
  "unset_columns r =
     r\<lparr>u_password := '''', u_token := '''', u_comment := '''', u_token_enable := 0,
       u_mtime := 0\<rparr>"

text \<open>The resource bindings of the strategies that have a given name.\<close>

definition strategy_resources :: "db \<Rightarrow> string \<Rightarrow> auth_strategy_resource_row list" where
  "strategy_resources d n =
     filter (\<lambda>r. r_strategy_id r \<in> set (map s_id (filter (\<lambda>s. s_name s = n) (auth_strategy d))))
       (auth_strategy_resource d)"



subsection \<open>A concrete setting\<close>

definition deadlock :: err where
  "deadlock = DriverError ''Deadlock found when trying to get lock''"

definition X0 :: externals where
  "X0 = \<lparr>BuildDefaultStrategyName =
            (\<lambda>i role. (case role of PrincipalUser \<Rightarrow> ''default-strategy-user-''
                                   | PrincipalUserGroup \<Rightarrow> ''default-strategy-group-'') @ i),
          store_wrap = (\<lambda>e. e),
          retryable = (\<lambda>e. e = deadlock),
          max_attempts = 3,
          uuid_gen = (\<lambda>n. replicate (Suc n) CHR ''a''),
          IsWildName = (\<lambda>v. v \<noteq> [] \<and> last v = CHR ''*''),
          OwnerAttribute = ''owner'',
          NameAttribute = ''name'',
          GroupIDAttribute = ''group_id'',
          client_found_rows = False,
          token_enable_default = 1,
          mtime_on_update = True,
          list_rows = (\<lambda>d q. []),
          count_rows = (\<lambda>d q. 0)\<rparr>"

definition alice :: User where
  "alice = \<lparr>ID = ''u1'', Name = ''alice'', Password = ''Abc123'', Owner = ''root'',
     Source = ''internal'', Token = ''tok'', TokenEnable = True, Type = 1, Comment = ''c'',
     Valid = True, CreateTime = 0, ModifyTime = 0\<rparr>"

definition alice_row :: user_row where
  "alice_row = \<lparr>u_id = ''u1'', u_name = ''alice'', u_password = ''Abc123'', u_owner = ''root'',
     u_source = ''internal'', u_token = ''tok'', u_comment = ''c'', u_flag = 0,
     u_user_type = 1, u_token_enable = 1, u_ctime = 1000, u_mtime = 1000\<rparr>"

definition admin_row :: user_row where
  "admin_row = \<lparr>u_id = ''u0'', u_name = ''polariadmin'', u_password = ''Abc123'',
     u_owner = '''', u_source = ''internal'', u_token = ''tok0'', u_comment = '''', u_flag = 0,
     u_user_type = 0, u_token_enable = 1, u_ctime = 10, u_mtime = 10\<rparr>"

definition empty_db :: db where
  "empty_db = \<lparr>users = [], user_group_relation = [], auth_strategy = [],
     auth_strategy_resource = [], auth_principal = []\<rparr>"

definition world_of :: "db \<Rightarrow> err option list \<Rightarrow> world" where
  "world_of d fs = \<lparr>w_db = d, w_faults = fs, w_now = 1000, w_uuids = 0, w_log = []\<rparr>"

text \<open>The tables after alice has been added to the empty database, then bound to one
  resource and put in one group.\<close>

definition alice_strategy :: auth_strategy_row where
  "alice_strategy = \<lparr>s_id = ''a'', s_name = ''default-strategy-user-u1'',
     s_action = ''READ_WRITE'', s_owner = ''root'', s_comment = ''default user auth_strategy'',
     s_flag = 0, s_default = True, s_revision = ''aa''\<rparr>"

definition db_alice :: db where
  "db_alice = \<lparr>users = [alice_row], user_group_relation = [],
     auth_strategy = [alice_strategy], auth_strategy_resource = [],
     auth_principal = [\<lparr>p_strategy_id = ''a'', p_principal_id = ''u1'',
                         p_principal_role = PrincipalUser\<rparr>]\<rparr>"

definition db_alice_bound :: db where
  "db_alice_bound = db_alice\<lparr>
     user_group_relation := [\<lparr>ug_user_id = ''u1'', ug_group_id = ''g1'', ug_flag = 0\<rparr>],
     auth_strategy_resource := [\<lparr>r_strategy_id = ''a'', r_resource = ''namespace ns1''\<rparr>]\<rparr>"

definition db_admin :: db where
  "db_admin = empty_db\<lparr>users := [admin_row, alice_row]\<rparr>"

text \<open>Two states of the tables that agree on everything but the columns UpdateUser sets.\<close>

definition same_but_set_columns :: "db \<Rightarrow> db \<Rightarrow> bool" where
  "same_but_set_columns d d' =
     (map unset_columns (users d') = map unset_columns (users d)
      \<and> user_group_relation d' = user_group_relation d
      \<and> auth_strategy d' = auth_strategy d
      \<and> auth_strategy_resource d' = auth_strategy_resource d
      \<and> auth_principal d' = auth_principal d)"


text \<open>A table with alice and with bob, who was deleted at time 500.\<close>

definition bob_row :: user_row where
  "bob_row = \<lparr>u_id = ''u2'', u_name = ''bob'', u_password = ''Abc123'', u_owner = ''root'',
     u_source = ''internal'', u_token = ''tok2'', u_comment = '''', u_flag = 1,
     u_user_type = 1, u_token_enable = 1, u_ctime = 400, u_mtime = 500\<rparr>"

definition db_two :: db where
  "db_two = empty_db\<lparr>users := [alice_row, bob_row]\<rparr>"

definition bob :: User where
  "bob = \<lparr>ID = ''u2'', Name = ''bob'', Password = ''Xyz789'', Owner = ''root'',
     Source = ''internal'', Token = ''tok9'', TokenEnable = True, Type = 1, Comment = '''',
     Valid = True, CreateTime = 0, ModifyTime = 0\<rparr>"

section \<open>Properties of the validator\<close>

subsection \<open>Decoding\<close>

lemma DecodeRune_ascii: "s0 < 0x80 \<Longrightarrow> DecodeRune (s0 # t) = (s0, 1)"
  by (simp add: DecodeRune_def)

lemma mod_base:
  assumes "q * m \<le> n" "n < q * m + m"
  shows "(n::nat) mod m = n - q * m"
proof -
  have "n = q * m + (n - q * m)" using assms by simp
  then have "n mod m = (q * m + (n - q * m)) mod m" by simp
  also have "\<dots> = (n - q * m) mod m" by (rule mod_mult_self3)
  also have "\<dots> = n - q * m" using assms by (intro mod_less) simp
  finally show ?thesis .
qed

lemma lead2: "0xC2 \<le> s0 \<Longrightarrow> s0 < 0xE0 \<Longrightarrow> 2 \<le> (s0::nat) mod 32"
  using mod_base [of 6 32 s0] by simp

lemma lead3: "0xE0 < s0 \<Longrightarrow> s0 < 0xF0 \<Longrightarrow> 1 \<le> (s0::nat) mod 16"
  using mod_base [of 14 16 s0] by simp

lemma lead4: "0xF0 < s0 \<Longrightarrow> s0 < 0xF5 \<Longrightarrow> 1 \<le> (s0::nat) mod 8"
  using mod_base [of 30 8 s0] by simp

lemma cont3: "0xA0 \<le> s1 \<Longrightarrow> s1 \<le> 0xBF \<Longrightarrow> 32 \<le> (s1::nat) mod 64"
  using mod_base [of 2 64 s1] by simp

lemma cont4: "0x90 \<le> s1 \<Longrightarrow> s1 \<le> 0xBF \<Longrightarrow> 16 \<le> (s1::nat) mod 64"
  using mod_base [of 2 64 s1] by simp

lemma two_bytes_high: "194 \<le> s0 \<Longrightarrow> s0 < 224 \<Longrightarrow> 128 \<le> (s0::nat) mod 32 * 64 + x"
  using lead2 [of s0] by simp

lemma three_bytes_high_E0:
  "\<not> s1 < 160 \<Longrightarrow> \<not> 191 < s1 \<Longrightarrow> 128 \<le> (s1::nat) mod 64 * 64 + x"
  using cont3 [of s1] by simp

lemma three_bytes_high:
  "224 < s0 \<Longrightarrow> s0 < 240 \<Longrightarrow> 128 \<le> (s0::nat) mod 16 * 4096 + y + x"
  using lead3 [of s0] by simp

lemma four_bytes_high_F0:
  "\<not> s1 < 144 \<Longrightarrow> \<not> 191 < s1 \<Longrightarrow> 128 \<le> (s1::nat) mod 64 * 4096 + y + x"
  using cont4 [of s1] by simp

lemma four_bytes_high:
  "240 < s0 \<Longrightarrow> s0 < 245 \<Longrightarrow> 128 \<le> (s0::nat) mod 8 * 262144 + z + y + x"
  using lead4 [of s0] by simp

text \<open>A byte that is not ASCII never starts a rune below 0x80.\<close>

lemma DecodeRune_high:
  assumes "\<not> s0 < 0x80"
  shows "0x80 \<le> fst (DecodeRune (s0 # t))"
proof -
  consider (inv) "s0 < 0xC2 \<or> 0xF5 \<le> s0"
    | (two) "0xC2 \<le> s0" "s0 < 0xE0"
    | (three0) "s0 = 0xE0"
    | (three) "0xE0 < s0" "s0 < 0xF0"
    | (four0) "s0 = 0xF0"
    | (four) "0xF0 < s0" "s0 < 0xF5"
    by linarith
  then show ?thesis
  proof cases
    case inv
    with assms show ?thesis by (auto simp: DecodeRune_def RuneError_def)
  next
    case two
    with assms show ?thesis
      by (simp add: DecodeRune_def RuneError_def Let_def two_bytes_high)
  next
    case three0
    then show ?thesis
      by (simp add: DecodeRune_def RuneError_def Let_def three_bytes_high_E0)
  next
    case three
    have d: "s0 \<noteq> 0xE0" "s0 \<noteq> 0xF0" "s0 \<noteq> 0xF4" "\<not> s0 < 0xE0" "\<not> s0 < 0xC2"
      "\<not> 0xF5 \<le> s0"
      using three by auto
    show ?thesis
      using three by (simp add: DecodeRune_def RuneError_def Let_def assms d three_bytes_high)
  next
    case four0
    then show ?thesis
      by (simp add: DecodeRune_def RuneError_def Let_def four_bytes_high_F0)
  next
    case four
    have d: "s0 \<noteq> 0xE0" "s0 \<noteq> 0xED" "s0 \<noteq> 0xF0" "\<not> s0 < 0xE0" "\<not> s0 < 0xF0"
      "\<not> s0 < 0xC2" "\<not> 0xF5 \<le> s0"
      using four by auto
    show ?thesis
      using four by (simp add: DecodeRune_def RuneError_def Let_def assms d four_bytes_high)
  qed
qed

text \<open>A predicate that holds of ASCII runes only holds of all runes of a string exactly
  when it holds of all its bytes.\<close>

lemma runes_all_ascii:
  assumes P: "\<And>r. P r \<Longrightarrow> r < 0x80"
  shows "list_all P (runes_of_bytes bs) = list_all P bs"
proof (induction bs rule: runes_of_bytes.induct)
  case 1
  show ?case by simp
next
  case (2 s0 t)
  show ?case
  proof (cases "s0 < 0x80")
    case True
    with 2 show ?thesis by (simp add: DecodeRune_ascii)
  next
    case False
    have "\<not> P s0" using P False by blast
    moreover have "\<not> P (fst (DecodeRune (s0 # t)))"
      using P DecodeRune_high [OF False, of t] by fastforce
    ultimately show ?thesis by simp
  qed
qed

lemma runes_of_bytes_Nil: "(runes_of_bytes bs = []) = (bs = [])"
  by (cases bs) simp_all

subsection \<open>checkName\<close>

lemma class_mem_ascii: "class_mem name_class r \<Longrightarrow> r < 0x80"
  by (auto simp: class_mem_def name_class_def)

lemma class_mem_of_spec_chars:
  "\<forall>c\<in>set spec_name_chars. class_mem name_class (of_char c)"
  by (simp add: class_mem_def name_class_def spec_name_chars_def)

lemma spec_chars_of_class_mem:
  assumes "class_mem name_class (of_char c)"
  shows "c \<in> set spec_name_chars"
proof -
  let ?n = "of_char c :: nat"
  let ?ns = "{48..57} \<union> {65..90} \<union> {97..122} \<union> {45, 46, 58, 95::nat}"
  from assms have "?n \<in> ?ns"
    by (auto simp: class_mem_def name_class_def)
  then have "char_of ?n \<in> char_of ` ?ns"
    by (rule imageI)
  also have "char_of ` ?ns = set spec_name_chars"
    unfolding spec_name_chars_def by code_simp
  finally show ?thesis by simp
qed

lemma class_mem_chars: "class_mem name_class (of_char c) = (c \<in> set spec_name_chars)"
  using class_mem_of_spec_chars spec_chars_of_class_mem by blast

lemma match_whole_plus_name:
  "match_whole_plus name_class v = (v \<noteq> [] \<and> (\<forall>c\<in>set v. c \<in> set spec_name_chars))"
proof -
  have "list_all (class_mem name_class) (runes v)
          = list_all (class_mem name_class) (map of_char v)"
    unfolding runes_def by (rule runes_all_ascii) (rule class_mem_ascii)
  also have "\<dots> = (\<forall>c\<in>set v. class_mem name_class (of_char c))"
    by (simp add: list_all_iff)
  also have "\<dots> = (\<forall>c\<in>set v. c \<in> set spec_name_chars)"
    by (simp only: class_mem_chars)
  finally show ?thesis
    by (simp add: match_whole_plus_def runes_def runes_of_bytes_Nil)
qed

text \<open>
  Claim C7. checkName returns an error exactly when the name is nil, is empty, is the
  reserved administrator name \<open>polariadmin\<close>, or has a character outside
  \<open>[0-9A-Za-z\-.:_]\<close>. It rejects \<open>polariadmin\<close> and \<open>bad user!\<close> and accepts
  \<open>svc-user_01\<close>.
\<close>

theorem checkName_fails_iff:
  "((checkName name \<noteq> None) =
      (name = None \<or> name = Some '''' \<or> name = Some ''polariadmin''
       \<or> (\<exists>v c. name = Some v \<and> c \<in> set v \<and> c \<notin> set spec_name_chars)))
   \<and> checkName (Some ''polariadmin'') \<noteq> None
   \<and> checkName (Some ''bad user!'') \<noteq> None
   \<and> checkName (Some ''svc-user_01'') = None"
proof (intro conjI)
  show "(checkName name \<noteq> None) =
      (name = None \<or> name = Some '''' \<or> name = Some ''polariadmin''
       \<or> (\<exists>v c. name = Some v \<and> c \<in> set v \<and> c \<notin> set spec_name_chars))"
    by (cases name) (auto simp: checkName_def match_whole_plus_name)
  show "checkName (Some ''polariadmin'') \<noteq> None"
    by (simp add: checkName_def)
  show "checkName (Some ''bad user!'') \<noteq> None"
    by (simp add: checkName_def match_whole_plus_name spec_name_chars_def)
  show "checkName (Some ''svc-user_01'') = None"
    by (simp add: checkName_def match_whole_plus_name spec_name_chars_def)
qed

theorem checkName_fails_iff_witness:
  "checkName (Some ''a b'') \<noteq> None"
proof -
  have "\<exists>v c. Some ''a b'' = Some v \<and> c \<in> set v \<and> c \<notin> set spec_name_chars"
    by (intro exI [of _ "''a b''"] exI [of _ "CHR '' ''"]) (simp add: spec_name_chars_def)
  then show ?thesis
    using checkName_fails_iff [of "Some ''a b''"] by blast
qed

subsection \<open>checkPassword\<close>

lemma runes_e_acute_x3: "runes e_acute_x3 = [0xE9, 0xE9, 0xE9]"
  by (simp add: runes_def e_acute_x3_def DecodeRune_def)

text \<open>The parts of the password rule that hold of every string: nil, the empty string
  and a length in bytes outside 6 to 17 are rejected.\<close>

lemma checkPassword_length:
  "checkPassword T None \<noteq> None"
  "checkPassword T (Some '''') \<noteq> None"
  "length v < 6 \<or> 17 < length v \<Longrightarrow> checkPassword T (Some v) \<noteq> None"
  by (simp_all add: checkPassword_def)

lemma runes_of_bytes_ascii: "\<forall>b\<in>set bs. b < 0x80 \<Longrightarrow> runes_of_bytes bs = bs"
  by (induction bs rule: runes_of_bytes.induct) (simp_all add: DecodeRune_ascii)

lemma fill_flags_eq:
  "k + length vs \<le> length flag \<Longrightarrow>
     fill_flags T flag k vs = take k flag @ map (char_flag T) vs @ drop (k + length vs) flag"
proof (induction vs arbitrary: flag k)
  case Nil
  show ?case by simp
next
  case (Cons v vs)
  have k: "k < length flag" using Cons.prems by simp
  have "fill_flags T (flag[k := char_flag T v]) (Suc k) vs
          = take (Suc k) (flag[k := char_flag T v]) @ map (char_flag T) vs
            @ drop (Suc k + length vs) (flag[k := char_flag T v])"
    using Cons.prems by (intro Cons.IH) simp
  also have "take (Suc k) (flag[k := char_flag T v]) = take k flag @ [char_flag T v]"
    using k by (simp add: take_Suc_conv_app_nth)
  also have "drop (Suc k + length vs) (flag[k := char_flag T v])
               = drop (k + length (v # vs)) flag"
    by simp
  finally show ?case by simp
qed

text \<open>On a password of ASCII characters the rule is the one the specification gives: it
  is accepted exactly when its characters fall in two classes or more.\<close>

lemma checkPassword_ascii:
  assumes "\<forall>c\<in>set v. (of_char c :: nat) < 0x80" "6 \<le> length v" "length v \<le> 17"
  shows "(checkPassword T (Some v) = None)
           = (2 \<le> card ((\<lambda>c. char_flag T (of_char c)) ` set v))"
proof -
  have r: "runes v = map of_char v"
    unfolding runes_def using assms(1) by (intro runes_of_bytes_ascii) simp
  have "fill_flags T (replicate (length v) '''') 0 (runes v) = map (char_flag T) (runes v)"
    by (simp add: fill_flags_eq r)
  then have "set (fill_flags T (replicate (length v) '''') 0 (runes v))
               = (\<lambda>c. char_flag T (of_char c)) ` set v"
    by (simp add: r image_image)
  moreover have "v \<noteq> ''''" using assms(2) by auto
  ultimately show ?thesis
    using assms(2,3) by (simp add: checkPassword_def Let_def not_less)
qed

lemma checkPassword_examples:
  "checkPassword T (Some ''Abc123'') = None"
  "checkPassword T (Some ''aaaaaa'') \<noteq> None"
  "checkPassword T (Some ''ab1'') \<noteq> None"
proof -
  have c: "char_flag T 65 = ''UpperCaseLetter''"
    "char_flag T 97 = ''LowerCaseLetter''"
    "char_flag T 98 = ''LowerCaseLetter''"
    "char_flag T 99 = ''LowerCaseLetter''"
    "char_flag T 49 = ''Number''"
    "char_flag T 50 = ''Number''"
    "char_flag T 51 = ''Number''"
    by (simp_all add: char_flag_def unicode_IsDigit_def unicode_IsLower_def
        unicode_IsUpper_def MaxLatin1_def)
  show "checkPassword T (Some ''Abc123'') = None"
    by (subst checkPassword_ascii) (simp_all add: c)
  show "checkPassword T (Some ''aaaaaa'') \<noteq> None"
    by (subst checkPassword_ascii) (simp_all add: c)
  show "checkPassword T (Some ''ab1'') \<noteq> None"
    by (simp add: checkPassword_def)
qed

text \<open>
  Claim C6. The claim says that a password with fewer than two character classes is
  rejected. The slice \<open>flag\<close> has one slot per byte and the loop fills one slot per rune,
  so a password with a rune of several bytes keeps empty strings in the slots left
  over, and the empty string counts as a class of its own. The password of three times
  U+00E9 (six bytes) has the single class of lowercase letters and is accepted.
\<close>

theorem checkPassword_accepts_single_class:
  "runes e_acute_x3 = [0xE9, 0xE9, 0xE9]
   \<and> map (char_flag T) (runes e_acute_x3)
       = [''LowerCaseLetter'', ''LowerCaseLetter'', ''LowerCaseLetter'']
   \<and> checkPassword T (Some e_acute_x3) = None"
proof (intro conjI)
  show "runes e_acute_x3 = [0xE9, 0xE9, 0xE9]" by (rule runes_e_acute_x3)
  show f: "map (char_flag T) (runes e_acute_x3)
       = [''LowerCaseLetter'', ''LowerCaseLetter'', ''LowerCaseLetter'']"
    by (simp add: runes_e_acute_x3 char_flag_def unicode_IsDigit_def unicode_IsLower_def
        MaxLatin1_def)
  have l: "char_flag T 0xE9 = ''LowerCaseLetter''"
    using f by (simp add: runes_e_acute_x3)
  show "checkPassword T (Some e_acute_x3) = None"
    by (simp add: checkPassword_def runes_e_acute_x3 l)
       (simp add: e_acute_x3_def numeral_eq_Suc)
qed

section \<open>Properties of the user store\<close>

subsection \<open>The calls on the database handle\<close>

lemma next_fault_fields:
  "w_db (snd (next_fault w)) = w_db w" "w_log (snd (next_fault w)) = w_log w"
  "w_now (snd (next_fault w)) = w_now w" "w_uuids (snd (next_fault w)) = w_uuids w"
  by (simp_all add: next_fault_def split: list.splits)

lemma next_fault_cases:
  obtains w1 where "next_fault w = (None, w1)" "w_db w1 = w_db w" "w_log w1 = w_log w"
      "w_now w1 = w_now w" "w_uuids w1 = w_uuids w"
  | e w1 where "next_fault w = (Some e, w1)" "w_db w1 = w_db w" "w_log w1 = w_log w"
      "w_now w1 = w_now w" "w_uuids w1 = w_uuids w"
proof (cases "next_fault w")
  case (Pair f w1)
  then have "w1 = snd (next_fault w)" by simp
  then have "w_db w1 = w_db w" "w_log w1 = w_log w" "w_now w1 = w_now w"
    "w_uuids w1 = w_uuids w"
    by (simp_all add: next_fault_fields)
  with Pair that show ?thesis by (cases f) auto
qed

lemma next_fault_none: "w_faults w = [] \<Longrightarrow> next_fault w = (None, w)"
  by (simp add: next_fault_def)

lemma master_Begin_cases:
  obtains e w1 where "master_Begin w = (Inl e, w1)" "w_db w1 = w_db w"
      "w_log w1 = w_log w @ [EvBegin]"
  | w1 where "master_Begin w = (Inr (w_db w), w1)" "w_db w1 = w_db w" "w_now w1 = w_now w"
      "w_log w1 = w_log w @ [EvBegin]"
  by (cases "log_event EvBegin w" rule: next_fault_cases)
     (auto simp: master_Begin_def log_event_def)

lemma tx_Exec_cases:
  obtains e w1 where "tx_Exec X st tx w = (Inl e, w1)" "w_db w1 = w_db w"
      "w_log w1 = w_log w @ [EvTxExec st]" "w_now w1 = w_now w"
  | n tx1 w1 where "tx_Exec X st tx w = (Inr (n, tx1), w1)" "w_db w1 = w_db w"
      "exec_stmt X (w_now w) st tx = Inr (n, tx1)" "w_now w1 = w_now w"
      "w_log w1 = w_log w @ [EvTxExec st]"
proof (cases "log_event (EvTxExec st) w" rule: next_fault_cases)
  case (1 w1)
  then show ?thesis
    using that by (cases "exec_stmt X (w_now w) st tx") (auto simp: tx_Exec_def log_event_def)
next
  case (2 e w1)
  then show ?thesis using that by (auto simp: tx_Exec_def log_event_def)
qed

lemma tx_Commit_cases:
  obtains e w1 where "tx_Commit tx w = (Some e, w1)" "w_db w1 = w_db w"
      "w_log w1 = w_log w @ [EvCommit]"
  | w1 where "tx_Commit tx w = (None, w1)" "w_db w1 = tx" "w_log w1 = w_log w @ [EvCommit]"
  by (cases "log_event EvCommit w" rule: next_fault_cases)
     (auto simp: tx_Commit_def log_event_def)

text \<open>A relation between the states before and after one attempt that is reflexive and
  transitive holds between the states before and after the retry loop.\<close>

lemma retry_loop_invariant:
  assumes step: "\<And>w. R w (snd (h w))"
    and refl: "\<And>w. R w w"
    and trans: "\<And>w w1 w2. R w w1 \<Longrightarrow> R w1 w2 \<Longrightarrow> R w w2"
  shows "R w (snd (retry_loop X n h e w))"
proof (induction n arbitrary: w e)
  case 0
  show ?case by (simp add: refl)
next
  case (Suc n)
  obtain r w1 where h: "h w = (r, w1)" by (cases "h w")
  have a: "R w w1" using step [of w] h by simp
  show ?case
  proof (cases r)
    case None
    with h a show ?thesis by simp
  next
    case (Some e1)
    show ?thesis
    proof (cases "retryable X e1")
      case True
      have "R w1 (snd (retry_loop X n h (Some e1) w1))" by (rule Suc.IH)
      with a have "R w (snd (retry_loop X n h (Some e1) w1))" by (rule trans)
      with h Some True show ?thesis by simp
    next
      case False
      with h Some a show ?thesis by simp
    qed
  qed
qed

lemma retry_loop_success:
  assumes "\<And>w. P w \<Longrightarrow> fst (h w) = None"
    and "P w"
  shows "fst (retry_loop X n h None w) = None"
proof (cases n)
  case 0
  then show ?thesis by simp
next
  case (Suc m)
  obtain r w1 where h: "h w = (r, w1)" by (cases "h w")
  with assms have "r = None" by fastforce
  with h Suc show ?thesis by simp
qed

subsection \<open>UpdateUser\<close>

lemma touch_unset:
  "unset_columns (touch X now (\<lambda>r. r\<lparr>u_password := pw, u_token := tk, u_comment := co,
      u_token_enable := te\<rparr>) r) = unset_columns r"
  by (simp add: touch_def unset_columns_def)

lemma same_refl: "same_but_set_columns d d"
  by (simp add: same_but_set_columns_def)

lemma same_trans:
  "same_but_set_columns d d1 \<Longrightarrow> same_but_set_columns d1 d2 \<Longrightarrow> same_but_set_columns d d2"
  by (simp add: same_but_set_columns_def)

lemma exec_ModifyUser_same:
  "exec_stmt X now (ModifyUser pw tk co te i) d = Inr (n, d') \<Longrightarrow> same_but_set_columns d d'"
  by (auto simp: update_where_def same_but_set_columns_def touch_unset)

lemma exec_ModifyUser_mtime:
  "\<not> mtime_on_update X \<Longrightarrow> exec_stmt X now (ModifyUser pw tk co te i) d = Inr (n, d')
     \<Longrightarrow> map u_mtime (users d') = map u_mtime (users d)"
  by (auto simp: update_where_def touch_def)

lemma exec_ModifyUser_noop:
  assumes "\<forall>r\<in>set (users d). \<not> (u_id r = i \<and> u_flag r = 0)"
  shows "exec_stmt X now (ModifyUser pw tk co te i) d = Inr (0, d)"
proof -
  have "map (\<lambda>r. if u_id r = i \<and> u_flag r = 0 then f r else r) (users d) = users d" for f
    using assms by (intro map_idI) auto
  moreover have "filter (\<lambda>r. (u_id r = i \<and> u_flag r = 0) \<and> Q r) (users d) = []" for Q
    using assms by (auto simp: filter_empty_conv)
  ultimately show ?thesis by (simp add: update_where_def)
qed

text \<open>One attempt of updateUser leaves the tables as they are or installs the result of
  the UPDATE statement on them.\<close>

lemma updateUser_db:
  "w_db (snd (updateUser X user w)) = w_db w
   \<or> (\<exists>n. exec_stmt X (w_now w) (ModifyUser (Password user) (Token user) (Comment user)
              (if \<not> TokenEnable user then 0 else 1) (ID user)) (w_db w)
            = Inr (n, w_db (snd (updateUser X user w))))"
proof (cases rule: master_Begin_cases [where w = w])
  case (1 e w1)
  then show ?thesis by (simp add: updateUser_def)
next
  case b: (2 w1)
  let ?st = "ModifyUser (Password user) (Token user) (Comment user)
               (if \<not> TokenEnable user then 0 else 1 :: int) (ID user)"
  show ?thesis
  proof (cases rule: tx_Exec_cases [where X = X and st = ?st and tx = "w_db w" and w = w1])
    case (1 e w2)
    with b show ?thesis by (simp add: updateUser_def)
  next
    case ex: (2 n tx1 w2)
    show ?thesis
    proof (cases rule: tx_Commit_cases [where tx = tx1 and w = w2])
      case (1 e w3)
      with b ex show ?thesis by (simp add: updateUser_def)
    next
      case (2 w3)
      with b ex show ?thesis by (simp add: updateUser_def)
    qed
  qed
qed

lemma updateUser_same: "same_but_set_columns (w_db w) (w_db (snd (updateUser X user w)))"
  using updateUser_db [of X user w] by (metis same_refl exec_ModifyUser_same)

lemma updateUser_mtime:
  "\<not> mtime_on_update X
     \<Longrightarrow> map u_mtime (users (w_db (snd (updateUser X user w)))) = map u_mtime (users (w_db w))"
  using updateUser_db [of X user w] by (metis exec_ModifyUser_mtime)

lemma updateUser_no_fault:
  "w_faults w = [] \<Longrightarrow> fst (updateUser X user w) = None"
  by (simp add: updateUser_def master_Begin_def tx_Exec_def tx_Commit_def log_event_def
      next_fault_def update_where_def Let_def)

lemma updateUser_noop:
  assumes "\<forall>r\<in>set (users (w_db w)). \<not> (u_id r = ID user \<and> u_flag r = 0)"
  shows "w_db (snd (updateUser X user w)) = w_db w"
  using updateUser_db [of X user w] exec_ModifyUser_noop [OF assms, of X "w_now w"]
  by (metis Inr_inject snd_conv)

text \<open>
  Claim C4. Whatever the user, the tables and the failures, UpdateUser leaves every
  table but \<open>user\<close> as it is, keeps the rows of \<open>user\<close> and their order, and changes in a
  row no column but password, token, comment and token_enable (and \<open>mtime\<close> where the
  table maintains it by itself): id, name, owner and source, and with them flag,
  user_type and ctime, are as before. Where the table does not maintain \<open>mtime\<close>, that
  column is as before too.
\<close>

theorem UpdateUser_frame:
  "same_but_set_columns (w_db w) (w_db (snd (UpdateUser X user w)))
   \<and> map (\<lambda>r. (u_id r, u_name r, u_owner r, u_source r)) (users (w_db (snd (UpdateUser X user w))))
       = map (\<lambda>r. (u_id r, u_name r, u_owner r, u_source r)) (users (w_db w))
   \<and> (\<not> mtime_on_update X \<longrightarrow>
        map u_mtime (users (w_db (snd (UpdateUser X user w)))) = map u_mtime (users (w_db w)))"
proof -
  let ?w' = "snd (retry_loop X (max_attempts X) (updateUser X user) None w)"
  have a: "same_but_set_columns (w_db w) (w_db ?w')"
    by (rule retry_loop_invariant [where R = "\<lambda>w w'. same_but_set_columns (w_db w) (w_db w')"])
       (rule updateUser_same, rule same_refl, erule same_trans)
  have b: "map u_mtime (users (w_db ?w')) = map u_mtime (users (w_db w))"
    if "\<not> mtime_on_update X"
    by (rule retry_loop_invariant
          [where R = "\<lambda>w w'. map u_mtime (users (w_db w')) = map u_mtime (users (w_db w))"])
       (simp_all add: updateUser_mtime that)
  have c: "w_db (snd (UpdateUser X user w)) = w_db w \<or> w_db (snd (UpdateUser X user w)) = w_db ?w'"
    by (simp add: UpdateUser_def RetryTransaction_def case_prod_beta)
  have d: "map (\<lambda>r. (u_id r, u_name r, u_owner r, u_source r)) (users d')
             = map (\<lambda>r. (u_id r, u_name r, u_owner r, u_source r)) (users d)"
    if "same_but_set_columns d d'" for d d'
  proof -
    have "map (\<lambda>r. (u_id r, u_name r, u_owner r, u_source r)) (users d')
            = map (\<lambda>r. (u_id r, u_name r, u_owner r, u_source r)) (map unset_columns (users d'))"
      by (simp add: unset_columns_def comp_def)
    also have "\<dots> = map (\<lambda>r. (u_id r, u_name r, u_owner r, u_source r))
                        (map unset_columns (users d))"
      using that by (simp add: same_but_set_columns_def)
    also have "\<dots> = map (\<lambda>r. (u_id r, u_name r, u_owner r, u_source r)) (users d)"
      by (simp add: unset_columns_def comp_def)
    finally show ?thesis .
  qed
  from c show ?thesis
  proof
    assume "w_db (snd (UpdateUser X user w)) = w_db w"
    then show ?thesis by (simp add: same_refl)
  next
    assume e: "w_db (snd (UpdateUser X user w)) = w_db ?w'"
    show ?thesis unfolding e using a b d [OF a] by blast
  qed
qed

theorem UpdateUser_frame_witness:
  "\<not> mtime_on_update (X0\<lparr>mtime_on_update := False\<rparr>)
   \<and> map u_mtime (users (w_db (snd (UpdateUser (X0\<lparr>mtime_on_update := False\<rparr>)
         (alice\<lparr>Password := ''Xyz789''\<rparr>) (world_of db_alice [])))))
       = [1000]"
  using UpdateUser_frame [of "world_of db_alice []" "X0\<lparr>mtime_on_update := False\<rparr>"
      "alice\<lparr>Password := ''Xyz789''\<rparr>"]
  by (simp add: world_of_def db_alice_def alice_row_def)

text \<open>
  Claim C3. The claim says that UpdateUser compares the number of affected rows with
  the number it expects and returns AffectedRowsNotMatch when they differ. It does
  not: updateUser drops the \<open>sql.Result\<close> of its UPDATE statement and never calls
  checkAffectedRows. Updating alice, who is in the table and not deleted, with the
  values she already has affects no row, which checkAffectedRows would report against
  an expected count of 1, and UpdateUser returns nil.
\<close>

theorem UpdateUser_ignores_affected_rows:
  "users db_alice = [alice_row] \<and> u_id alice_row = ID alice \<and> u_flag alice_row = 0
   \<and> exec_stmt X0 1000 (ModifyUser (Password alice) (Token alice) (Comment alice) 1 (ID alice))
        db_alice = Inr (0, db_alice)
   \<and> checkAffectedRows ''updateUser'' (Inr 0) 1
        = Some (StatusError AffectedRowsNotMatch ''affected rows not match'')
   \<and> fst (UpdateUser X0 alice (world_of db_alice [])) = None"
  by (simp add: UpdateUser_def alice_def world_of_def db_alice_def X0_def
      RetryTransaction_def numeral_3_eq_3 updateUser_def master_Begin_def next_fault_def
      log_event_def tx_Exec_def tx_Commit_def store_Error_def update_where_def touch_def
      alice_row_def checkAffectedRows_def)

text \<open>
  Claim C3 as amended. UpdateUser does not look at the number of affected rows: when
  its parameters are present and no call on the database fails, it returns nil,
  whatever that number is. When no row has the id with flag 0, the tables stay as they
  are and the result is still nil. The comparison lives in checkAffectedRows, which
  returns AffectedRowsNotMatch exactly when the reported number differs from the
  expected one, and which updateUser does not call.
\<close>

theorem UpdateUser_no_affected_rows_check:
  assumes "ID user \<noteq> ''''" "Name user \<noteq> ''''" "Token user \<noteq> ''''" "Password user \<noteq> ''''"
    and "w_faults w = []"
  shows "fst (UpdateUser X user w) = None
    \<and> ((\<forall>r\<in>set (users (w_db w)). \<not> (u_id r = ID user \<and> u_flag r = 0))
         \<longrightarrow> w_db (snd (UpdateUser X user w)) = w_db w)
    \<and> checkAffectedRows label (Inr n) count
         = (if n = count then None
            else Some (StatusError AffectedRowsNotMatch ''affected rows not match''))"
proof (intro conjI impI)
  have "fst (retry_loop X (max_attempts X) (updateUser X user) None w) = None"
    by (rule retry_loop_success [where P = "\<lambda>w. w_faults w = []"])
       (simp_all add: updateUser_no_fault assms)
  then show "fst (UpdateUser X user w) = None"
    using assms by (simp add: UpdateUser_def RetryTransaction_def store_Error_def
        case_prod_beta)
next
  assume none: "\<forall>r\<in>set (users (w_db w)). \<not> (u_id r = ID user \<and> u_flag r = 0)"
  let ?R = "\<lambda>w w'. w_db w' = w_db w"
  have "w_db (snd (retry_loop X (max_attempts X) (updateUser X user) None w)) = w_db w"
  proof (cases "max_attempts X")
    case 0
    then show ?thesis by simp
  next
    case (Suc m)
    have s: "w_db (snd (updateUser X user w)) = w_db w"
      using none by (rule updateUser_noop)
    have f: "fst (updateUser X user w) = None"
      using assms by (simp add: updateUser_no_fault)
    obtain r w1 where h: "updateUser X user w = (r, w1)" by (cases "updateUser X user w")
    with s f Suc show ?thesis by simp
  qed
  then show "w_db (snd (UpdateUser X user w)) = w_db w"
    by (simp add: UpdateUser_def RetryTransaction_def case_prod_beta)
next
  show "checkAffectedRows label (Inr n) count
         = (if n = count then None
            else Some (StatusError AffectedRowsNotMatch ''affected rows not match''))"
    by (simp add: checkAffectedRows_def)
qed

theorem UpdateUser_no_affected_rows_check_witness:
  "ID bob \<noteq> '''' \<and> Name bob \<noteq> '''' \<and> Token bob \<noteq> '''' \<and> Password bob \<noteq> ''''
   \<and> w_faults (world_of db_two []) = []
   \<and> users (w_db (world_of db_two [])) = [alice_row, bob_row]
   \<and> u_id alice_row \<noteq> ID bob \<and> u_id bob_row = ID bob \<and> u_flag bob_row = 1
   \<and> fst (UpdateUser X0 bob (world_of db_two [])) = None
   \<and> w_db (snd (UpdateUser X0 bob (world_of db_two []))) = db_two"
  using UpdateUser_no_affected_rows_check [of bob "world_of db_two []" X0]
  by (simp add: bob_def world_of_def db_two_def empty_db_def alice_row_def bob_row_def)

subsection \<open>The log\<close>














subsection \<open>AddUser\<close>




subsection \<open>DeleteUser\<close>

lemma tx_Exec_db: "tx_Exec X st tx w = (r, w1) \<Longrightarrow> w_db w1 = w_db w"
  by (cases rule: tx_Exec_cases [where X = X and st = st and tx = tx and w = w]) auto

lemma master_Begin_db: "master_Begin w = (r, w1) \<Longrightarrow> w_db w1 = w_db w"
  by (cases rule: master_Begin_cases [where w = w]) auto

text \<open>The last statement of cleanLinkStrategy names a column that \<open>auth_principal\<close> does
  not have, so it fails whatever the tables hold.\<close>

lemma tx_Exec_unknown_column:
  "tx_Exec X (DeletePrincipals ''principa_id'' i ro) tx w \<noteq> (Inr p, w1)"
  by (cases rule: tx_Exec_cases [where X = X and st = "DeletePrincipals ''principa_id'' i ro"
        and tx = tx and w = w])
     (auto simp: auth_principal_columns_def)

lemma cleanLinkStrategy_fails:
  assumes "cleanLinkStrategy X tx role i w = (r, w')"
  shows "w_db w' = w_db w \<and> (\<exists>e. r = Inl e)"
proof -
  let ?n = "BuildDefaultStrategyName X i PrincipalUserGroup"
  obtain r1 w1 where e1: "tx_Exec X (FlagStrategy ?n) tx w = (r1, w1)"
    by (cases "tx_Exec X (FlagStrategy ?n) tx w")
  note d1 = tx_Exec_db [OF e1]
  show ?thesis
  proof (cases r1)
    case (Inl e)
    with assms e1 d1 show ?thesis by (auto simp: cleanLinkStrategy_def)
  next
    case r1: (Inr p1)
    obtain n1 tx1 where p1: "p1 = (n1, tx1)" by (cases p1)
    obtain r2 w2 where e2: "tx_Exec X (DeleteStrategyResources ?n) tx1 w1 = (r2, w2)"
      by (cases "tx_Exec X (DeleteStrategyResources ?n) tx1 w1")
    have d2: "w_db w2 = w_db w" using tx_Exec_db [OF e2] d1 by simp
    show ?thesis
    proof (cases r2)
      case (Inl e)
      with assms e1 r1 p1 e2 d2 show ?thesis by (auto simp: cleanLinkStrategy_def)
    next
      case r2: (Inr p2)
      obtain n2 tx2 where p2: "p2 = (n2, tx2)" by (cases p2)
      obtain r3 w3 where e3: "tx_Exec X (DeleteStrategyPrincipals ?n) tx2 w2 = (r3, w3)"
        by (cases "tx_Exec X (DeleteStrategyPrincipals ?n) tx2 w2")
      have d3: "w_db w3 = w_db w" using tx_Exec_db [OF e3] d2 by simp
      show ?thesis
      proof (cases r3)
        case (Inl e)
        with assms e1 r1 p1 e2 r2 p2 e3 d3 show ?thesis by (auto simp: cleanLinkStrategy_def)
      next
        case r3: (Inr p3)
        obtain n3 tx3 where p3: "p3 = (n3, tx3)" by (cases p3)
        obtain r4 w4 where
          e4: "tx_Exec X (DeletePrincipals ''principa_id'' i PrincipalUserGroup) tx3 w3 = (r4, w4)"
          by (cases "tx_Exec X (DeletePrincipals ''principa_id'' i PrincipalUserGroup) tx3 w3")
        have d4: "w_db w4 = w_db w" using tx_Exec_db [OF e4] d3 by simp
        from e4 obtain e where r4: "r4 = Inl e"
          using tx_Exec_unknown_column [of X i PrincipalUserGroup tx3 w3] by (cases r4) auto
        with assms e1 r1 p1 e2 r2 p2 e3 r3 p3 e4 d4 show ?thesis
          by (auto simp: cleanLinkStrategy_def)
      qed
    qed
  qed
qed

text \<open>An attempt of deleteUser never reaches its commit: it returns an error and the
  tables are as before.\<close>

lemma deleteUser_fails:
  "w_db (snd (deleteUser X i w)) = w_db w \<and> fst (deleteUser X i w) \<noteq> None"
proof -
  obtain r0 w0 where b: "master_Begin w = (r0, w0)" by (cases "master_Begin w")
  note d0 = master_Begin_db [OF b]
  show ?thesis
  proof (cases r0)
    case (Inl e)
    with b d0 show ?thesis by (simp add: deleteUser_def)
  next
    case r0: (Inr tx)
    obtain r1 w1 where e1: "tx_Exec X (FlagUser i) tx w0 = (r1, w1)"
      by (cases "tx_Exec X (FlagUser i) tx w0")
    have d1: "w_db w1 = w_db w" using tx_Exec_db [OF e1] d0 by simp
    show ?thesis
    proof (cases r1)
      case (Inl e)
      with b r0 e1 d1 show ?thesis by (simp add: deleteUser_def)
    next
      case r1: (Inr p1)
      obtain n1 tx1 where p1: "p1 = (n1, tx1)" by (cases p1)
      obtain r2 w2 where e2: "tx_Exec X (FlagUserGroupRelation i) tx1 w1 = (r2, w2)"
        by (cases "tx_Exec X (FlagUserGroupRelation i) tx1 w1")
      have d2: "w_db w2 = w_db w" using tx_Exec_db [OF e2] d1 by simp
      show ?thesis
      proof (cases r2)
        case (Inl e)
        with b r0 e1 r1 p1 e2 d2 show ?thesis by (simp add: deleteUser_def)
      next
        case r2: (Inr p2)
        obtain n2 tx2 where p2: "p2 = (n2, tx2)" by (cases p2)
        obtain r3 w3 where c: "cleanLinkStrategy X tx2 PrincipalUser i w2 = (r3, w3)"
          by (cases "cleanLinkStrategy X tx2 PrincipalUser i w2")
        from cleanLinkStrategy_fails [OF c] d2 obtain e
          where "w_db w3 = w_db w" "r3 = Inl e" by auto
        with b r0 e1 r1 p1 e2 r2 p2 c show ?thesis by (simp add: deleteUser_def)
      qed
    qed
  qed
qed

lemma DeleteUser_never_deletes: "w_db (snd (DeleteUser X userId w)) = w_db w"
proof -
  have "w_db (snd (retry_loop X (max_attempts X) (deleteUser X userId) None w)) = w_db w"
    by (rule retry_loop_invariant [where R = "\<lambda>w w'. w_db w' = w_db w"])
       (simp_all add: deleteUser_fails)
  then show ?thesis
    by (simp add: DeleteUser_def RetryTransaction_def case_prod_beta)
qed

lemma AddUser_alice:
  "fst (AddUser X0 alice (world_of empty_db [])) = None
   \<and> w_db (snd (AddUser X0 alice (world_of empty_db []))) = db_alice"
  by (simp add: AddUser_def alice_def world_of_def empty_db_def X0_def cleanInValidUser_def
     master_Exec_def next_fault_def log_event_def delete_where_def RetryTransaction_def
     numeral_3_eq_3 addUser_def master_Begin_def tx_Exec_def createDefaultStrategy_def
     NewUUID_def tx_Commit_def store_Error_def READ_WRITE_def Let_def db_alice_def
     alice_row_def alice_strategy_def numeral_2_eq_2)

text \<open>
  Claim C5. The claim says that DeleteUser soft-deletes the user, her group relations
  and her default strategy, found by the default-strategy name of the user kind, and
  removes the bindings of that strategy. On the tables that AddUser made for alice,
  with one resource bound to her default strategy and one group relation, the three
  strategy statements of cleanLinkStrategy carry the name of the group kind and touch
  no row; the fourth names the column \<open>principa_id\<close>, which \<open>auth_principal\<close> does not
  have, so it fails, the transaction is rolled back, and DeleteUser returns the error
  with every table as before: the resource binding of the default strategy is still
  there.
\<close>

theorem DeleteUser_keeps_default_strategy:
  "fst (DeleteUser X0 ''u1'' (world_of db_alice_bound []))
     = Some (DriverError ''Unknown column principa_id'')
   \<and> w_db (snd (DeleteUser X0 ''u1'' (world_of db_alice_bound []))) = db_alice_bound
   \<and> w_log (snd (DeleteUser X0 ''u1'' (world_of db_alice_bound [])))
     = [EvBegin,
        EvTxExec (FlagUser ''u1''),
        EvTxExec (FlagUserGroupRelation ''u1''),
        EvTxExec (FlagStrategy ''default-strategy-group-u1''),
        EvTxExec (DeleteStrategyResources ''default-strategy-group-u1''),
        EvTxExec (DeleteStrategyPrincipals ''default-strategy-group-u1''),
        EvTxExec (DeletePrincipals ''principa_id'' ''u1'' PrincipalUserGroup)]
   \<and> BuildDefaultStrategyName X0 ''u1'' PrincipalUser = ''default-strategy-user-u1''
   \<and> exec_stmt X0 1000 (FlagStrategy ''default-strategy-group-u1'') db_alice_bound
       = Inr (0, db_alice_bound)
   \<and> exec_stmt X0 1000 (DeleteStrategyResources ''default-strategy-group-u1'') db_alice_bound
       = Inr (0, db_alice_bound)
   \<and> strategy_resources db_alice_bound ''default-strategy-user-u1''
       = [\<lparr>r_strategy_id = ''a'', r_resource = ''namespace ns1''\<rparr>]
   \<and> map u_flag (users db_alice_bound) = [0]"
proof -
  have a: "fst (DeleteUser X0 ''u1'' (world_of db_alice_bound []))
             = Some (DriverError ''Unknown column principa_id'')
           \<and> w_log (snd (DeleteUser X0 ''u1'' (world_of db_alice_bound [])))
             = [EvBegin,
                EvTxExec (FlagUser ''u1''),
                EvTxExec (FlagUserGroupRelation ''u1''),
                EvTxExec (FlagStrategy ''default-strategy-group-u1''),
                EvTxExec (DeleteStrategyResources ''default-strategy-group-u1''),
                EvTxExec (DeleteStrategyPrincipals ''default-strategy-group-u1''),
                EvTxExec (DeletePrincipals ''principa_id'' ''u1'' PrincipalUserGroup)]"
    by (simp add: DeleteUser_def world_of_def db_alice_bound_def db_alice_def X0_def
      RetryTransaction_def numeral_3_eq_3 deleteUser_def master_Begin_def next_fault_def
      log_event_def tx_Exec_def tx_Commit_def store_Error_def update_where_def
      cleanLinkStrategy_def touch_def alice_row_def alice_strategy_def strategy_id_by_name_def
      auth_principal_columns_def deadlock_def)
  have b: "w_db (snd (DeleteUser X0 ''u1'' (world_of db_alice_bound []))) = db_alice_bound"
    using DeleteUser_never_deletes [of X0 "''u1''" "world_of db_alice_bound []"]
    by (simp add: world_of_def)
  have c: "BuildDefaultStrategyName X0 ''u1'' PrincipalUser = ''default-strategy-user-u1''"
    by (simp add: X0_def)
  have d: "exec_stmt X0 1000 (FlagStrategy ''default-strategy-group-u1'') db_alice_bound
             = Inr (0, db_alice_bound)"
    "exec_stmt X0 1000 (DeleteStrategyResources ''default-strategy-group-u1'') db_alice_bound
             = Inr (0, db_alice_bound)"
    by (simp_all add: db_alice_bound_def db_alice_def alice_strategy_def update_where_def
        strategy_id_by_name_def)
  have e: "strategy_resources db_alice_bound ''default-strategy-user-u1''
             = [\<lparr>r_strategy_id = ''a'', r_resource = ''namespace ns1''\<rparr>]"
    "map u_flag (users db_alice_bound) = [0]"
    by (simp_all add: strategy_resources_def db_alice_bound_def db_alice_def
        alice_strategy_def alice_row_def)
  from a b c d e show ?thesis by blast
qed

subsection \<open>Reads\<close>

lemma next_fault_ok:
  assumes "fst (next_fault w) = None"
  obtains w1 where "next_fault w = (None, w1)" "w_db w1 = w_db w"
  using assms by (cases w rule: next_fault_cases) auto

lemma collectUsers_ok:
  assumes "fst (next_fault w) = None"
  shows "fst (collectUsers X q w) = Inr (map fetchRown2User (run_query X q (w_db w)))"
  using assms by (rule next_fault_ok) (simp add: collectUsers_def master_Query_def)

lemma QueryRow_row:
  assumes "master_QueryRow X q w = (Inr r, w1)"
  shows "r \<in> set (run_query X q (w_db w))"
proof (cases w rule: next_fault_cases)
  case (1 w2)
  with assms show ?thesis
    by (auto simp: master_QueryRow_def split: list.splits)
next
  case (2 e w2)
  with assms show ?thesis by (simp add: master_QueryRow_def)
qed

lemma Name_scan_user: "Name (scan_user r) = u_name r"
  by (simp add: scan_user_def new_User_def)

lemma GetUser_row:
  assumes "fst (GetUser X i w) = Inr (Some u)"
  shows "\<exists>r\<in>set (run_query X (SelectUserByID i) (w_db w)). u = scan_user r"
proof -
  obtain a w1 where q: "master_QueryRow X (SelectUserByID i) w = (a, w1)"
    by (cases "master_QueryRow X (SelectUserByID i) w")
  show ?thesis
  proof (cases a)
    case (Inl e)
    with assms q show ?thesis by (cases e) (simp_all add: GetUser_def)
  next
    case (Inr r)
    with assms q have "u = scan_user r" by (simp add: GetUser_def)
    moreover from q Inr have "master_QueryRow X (SelectUserByID i) w = (Inr r, w1)"
      by simp
    then have "r \<in> set (run_query X (SelectUserByID i) (w_db w))"
      by (rule QueryRow_row)
    ultimately show ?thesis by blast
  qed
qed

lemma GetUserByName_row:
  assumes "fst (GetUserByName X n ow w) = Inr (Some u)"
  shows "\<exists>r\<in>set (run_query X (SelectUserByName n ow) (w_db w)). u = scan_user r"
proof -
  obtain a w1 where q: "master_QueryRow X (SelectUserByName n ow) w = (a, w1)"
    by (cases "master_QueryRow X (SelectUserByName n ow) w")
  show ?thesis
  proof (cases a)
    case (Inl e)
    with assms q show ?thesis by (cases e) (simp_all add: GetUserByName_def)
  next
    case (Inr r)
    with assms q have "u = scan_user r" by (simp add: GetUserByName_def)
    moreover from q Inr have "master_QueryRow X (SelectUserByName n ow) w = (Inr r, w1)"
      by simp
    then have "r \<in> set (run_query X (SelectUserByName n ow) (w_db w))"
      by (rule QueryRow_row)
    ultimately show ?thesis by blast
  qed
qed

text \<open>
  Claim C1. The claim says that no read returns a principal with the reserved name
  \<open>polariadmin\<close>. The query of GetUsersForCache has no predicate on the name: on a table
  with the administrator and alice, the first synchronisation returns both.
\<close>

theorem GetUsersForCache_returns_reserved_name:
  "fst (GetUsersForCache X0 0 True (world_of db_admin []))
     = Inr [fetchRown2User admin_row, fetchRown2User alice_row]
   \<and> Name (fetchRown2User admin_row) = ''polariadmin''"
  by (simp add: GetUsersForCache_def collectUsers_def master_Query_def next_fault_def
      world_of_def db_admin_def empty_db_def fetchRown2User_def new_User_def admin_row_def)

text \<open>
  Claim C1 as amended. GetUser and GetUserByName never return a principal whose name is
  \<open>polariadmin\<close>. GetUsersForCache excludes no name: when its query succeeds on the
  first synchronisation, every row of the table is in the result, whatever its name.
  (Nothing is said here of GetUserByIDS, listUsers and listGroupUsers, whose queries
  exclude the different name \<open>polarisadmin\<close>.)
\<close>

theorem reads_exclude_reserved_name:
  "(fst (GetUser X i w) = Inr (Some u) \<longrightarrow> Name u \<noteq> ''polariadmin'')
   \<and> (fst (GetUserByName X n ow w) = Inr (Some u) \<longrightarrow> Name u \<noteq> ''polariadmin'')
   \<and> (fst (next_fault w) = None \<and> r \<in> set (users (w_db w)) \<longrightarrow>
        (\<exists>us. fst (GetUsersForCache X t True w) = Inr us \<and> fetchRown2User r \<in> set us))"
proof (intro conjI impI)
  assume "fst (GetUser X i w) = Inr (Some u)"
  then obtain r where "r \<in> set (run_query X (SelectUserByID i) (w_db w))" "u = scan_user r"
    using GetUser_row by blast
  then show "Name u \<noteq> ''polariadmin''" by (auto simp: Name_scan_user)
next
  assume "fst (GetUserByName X n ow w) = Inr (Some u)"
  then obtain r where "r \<in> set (run_query X (SelectUserByName n ow) (w_db w))"
    "u = scan_user r"
    using GetUserByName_row by blast
  then show "Name u \<noteq> ''polariadmin''" by (auto simp: Name_scan_user)
next
  assume a: "fst (next_fault w) = None \<and> r \<in> set (users (w_db w))"
  then have "fst (GetUsersForCache X t True w) = Inr (map fetchRown2User (users (w_db w)))"
    by (simp add: GetUsersForCache_def collectUsers_ok)
  with a show "\<exists>us. fst (GetUsersForCache X t True w) = Inr us \<and> fetchRown2User r \<in> set us"
    by simp
qed

theorem reads_exclude_reserved_name_witness:
  "fst (GetUser X0 ''u1'' (world_of db_admin [])) = Inr (Some (scan_user alice_row))
   \<and> fst (GetUserByName X0 ''alice'' ''root'' (world_of db_admin []))
       = Inr (Some (scan_user alice_row))
   \<and> fst (next_fault (world_of db_admin [])) = None
   \<and> users (w_db (world_of db_admin [])) = [admin_row, alice_row]
   \<and> Name (scan_user alice_row) \<noteq> ''polariadmin''
   \<and> fst (GetUsersForCache X0 0 True (world_of db_admin []))
       = Inr [fetchRown2User admin_row, fetchRown2User alice_row]"
  using reads_exclude_reserved_name [of X0 "''u1''" "world_of db_admin []" "scan_user alice_row"
      "''alice''" "''root''" admin_row 0]
  by (simp add: GetUser_def GetUserByName_def master_QueryRow_def next_fault_def
      world_of_def db_admin_def empty_db_def admin_row_def alice_row_def
      GetUsersForCache_def collectUsers_def master_Query_def)

text \<open>The slip beside claim C1: GetUserByIDS excludes \<open>polarisadmin\<close>, not
  \<open>polariadmin\<close>, and returns the administrator.\<close>

lemma GetUserByIDS_returns_reserved_name:
  "fst (GetUserByIDS X0 [''u0''] (world_of db_admin [])) = Inr [fetchRown2User admin_row]"
  by (simp add: GetUserByIDS_def master_Query_def next_fault_def world_of_def db_admin_def
      empty_db_def admin_row_def alice_row_def)

text \<open>
  Claim C8. When its query succeeds, GetUsersForCache with \<open>firstUpdate\<close> returns every
  row of the table, with no filter on the modification time, soft-deleted rows
  included, each with \<open>Valid\<close> false when its flag is set; without \<open>firstUpdate\<close> it
  returns exactly the rows whose modification time is the watermark or later.
\<close>

theorem GetUsersForCache_rows:
  assumes "fst (next_fault w) = None"
  shows "fst (GetUsersForCache X t True w) = Inr (map fetchRown2User (users (w_db w)))
    \<and> fst (GetUsersForCache X t False w)
        = Inr (map fetchRown2User (filter (\<lambda>r. t \<le> u_mtime r) (users (w_db w))))
    \<and> Valid (fetchRown2User r) = (u_flag r = 0)
    \<and> ModifyTime (fetchRown2User r) = u_mtime r
    \<and> ID (fetchRown2User r) = u_id r"
  using assms
  by (simp add: GetUsersForCache_def Time2String_def collectUsers_ok fetchRown2User_def
      new_User_def)

theorem GetUsersForCache_rows_witness:
  "fst (next_fault (world_of db_two [])) = None
   \<and> fst (GetUsersForCache X0 1000 True (world_of db_two []))
       = Inr [fetchRown2User alice_row, fetchRown2User bob_row]
   \<and> fst (GetUsersForCache X0 1000 False (world_of db_two [])) = Inr [fetchRown2User alice_row]
   \<and> Valid (fetchRown2User bob_row) = False"
  using GetUsersForCache_rows [of "world_of db_two []" X0 1000 bob_row]
  by (simp add: next_fault_def world_of_def db_two_def empty_db_def alice_row_def bob_row_def)

text \<open>
  Claim C9. When the query runs and no row matches, GetUser and GetUserByName return a
  nil user and a nil error. GetUserByIDS with no ids returns no user and a nil error,
  without a call on the database.
\<close>

theorem not_found_is_success:
  "(fst (next_fault w) = None
      \<and> (\<forall>u\<in>set (users (w_db w)). \<not> (u_flag u = 0 \<and> u_name u \<noteq> ''polariadmin'' \<and> u_id u = i))
      \<longrightarrow> fst (GetUser X i w) = Inr None)
   \<and> (fst (next_fault w) = None
      \<and> (\<forall>u\<in>set (users (w_db w)).
            \<not> (u_flag u = 0 \<and> u_name u \<noteq> ''polariadmin'' \<and> u_name u = n \<and> u_owner u = ow))
      \<longrightarrow> fst (GetUserByName X n ow w) = Inr None)
   \<and> GetUserByIDS X [] w = (Inr [], w)"
proof (intro conjI impI)
  assume a: "fst (next_fault w) = None
      \<and> (\<forall>u\<in>set (users (w_db w)). \<not> (u_flag u = 0 \<and> u_name u \<noteq> ''polariadmin'' \<and> u_id u = i))"
  then have "run_query X (SelectUserByID i) (w_db w) = []"
    by (simp add: filter_empty_conv)
  moreover from a obtain w1 where "next_fault w = (None, w1)" "w_db w1 = w_db w"
    by (blast elim: next_fault_ok)
  ultimately show "fst (GetUser X i w) = Inr None"
    by (simp add: GetUser_def master_QueryRow_def)
next
  assume a: "fst (next_fault w) = None
      \<and> (\<forall>u\<in>set (users (w_db w)).
            \<not> (u_flag u = 0 \<and> u_name u \<noteq> ''polariadmin'' \<and> u_name u = n \<and> u_owner u = ow))"
  then have "run_query X (SelectUserByName n ow) (w_db w) = []"
    by (simp add: filter_empty_conv)
  moreover from a obtain w1 where "next_fault w = (None, w1)" "w_db w1 = w_db w"
    by (blast elim: next_fault_ok)
  ultimately show "fst (GetUserByName X n ow w) = Inr None"
    by (simp add: GetUserByName_def master_QueryRow_def)
next
  show "GetUserByIDS X [] w = (Inr [], w)" by (simp add: GetUserByIDS_def)
qed

theorem not_found_is_success_witness:
  "fst (next_fault (world_of db_two [])) = None
   \<and> users (w_db (world_of db_two [])) = [alice_row, bob_row]
   \<and> u_id alice_row = ''u1'' \<and> u_name alice_row = ''alice'' \<and> u_flag bob_row = 1
   \<and> fst (GetUser X0 ''u2'' (world_of db_two [])) = Inr None
   \<and> fst (GetUserByName X0 ''bob'' ''root'' (world_of db_two [])) = Inr None"
  using not_found_is_success [of "world_of db_two []" "''u2''" X0 "''bob''" "''root''"]
  by (simp add: next_fault_def world_of_def db_two_def empty_db_def alice_row_def bob_row_def)

subsection \<open>The filters map\<close>

lemma listGroupUsers_filters:
  assumes "map_of filters (GroupIDAttribute X) = Some g"
  shows "fst (snd (listGroupUsers X filters offset limit w))
           = AList.delete (GroupIDAttribute X) (AList.update ''ug.group_id'' g filters)"
  using assms
  by (simp add: listGroupUsers_def Let_def split: sum.splits prod.splits)

text \<open>
  Claim C10. When the filters map has the key \<open>group_id\<close> (the value of the constant
  GroupIDAttribute), GetUsers changes the map of its caller: after the call the key
  \<open>group_id\<close> is gone, the key \<open>ug.group_id\<close> holds its former value, every other key is
  as before, and so the map is not the map that was passed. This holds on every path,
  also when a query fails afterwards.
\<close>

theorem GetUsers_rewrites_filters:
  assumes "GroupIDAttribute X = ''group_id''"
    and "map_of filters ''group_id'' = Some g"
  shows "map_of (fst (snd (GetUsers X filters offset limit w))) ''group_id'' = None
    \<and> map_of (fst (snd (GetUsers X filters offset limit w))) ''ug.group_id'' = Some g
    \<and> (\<forall>k. k \<noteq> ''group_id'' \<and> k \<noteq> ''ug.group_id'' \<longrightarrow>
          map_of (fst (snd (GetUsers X filters offset limit w))) k = map_of filters k)
    \<and> map_of (fst (snd (GetUsers X filters offset limit w))) \<noteq> map_of filters"
proof -
  let ?f = "fst (snd (GetUsers X filters offset limit w))"
  have f: "?f = AList.delete ''group_id'' (AList.update ''ug.group_id'' g filters)"
    using assms listGroupUsers_filters [of filters X g offset limit w]
    by (simp add: GetUsers_def)
  have m: "map_of ?f = ((map_of filters)(''ug.group_id'' \<mapsto> g))(''group_id'' := None)"
    unfolding f by (simp add: delete_conv' update_conv')
  have 1: "map_of ?f ''group_id'' = None" unfolding m by simp
  have 2: "map_of ?f ''ug.group_id'' = Some g" unfolding m by simp
  have 3: "\<forall>k. k \<noteq> ''group_id'' \<and> k \<noteq> ''ug.group_id'' \<longrightarrow> map_of ?f k = map_of filters k"
    unfolding m by simp
  have 4: "map_of ?f \<noteq> map_of filters"
    using 1 assms(2) by (metis option.distinct(1))
  from 1 2 3 4 show ?thesis by blast
qed

theorem GetUsers_rewrites_filters_witness:
  "GroupIDAttribute X0 = ''group_id''
   \<and> map_of [(''group_id'', ''g1''), (''user_name'', ''al*'')] ''group_id'' = Some ''g1''
   \<and> fst (snd (GetUsers X0 [(''group_id'', ''g1''), (''user_name'', ''al*'')] 0 10
                 (world_of db_two [])))
       = [(''user_name'', ''al*''), (''ug.group_id'', ''g1'')]"
proof -
  have "fst (snd (GetUsers X0 [(''group_id'', ''g1''), (''user_name'', ''al*'')] 0 10
                 (world_of db_two [])))
       = [(''user_name'', ''al*''), (''ug.group_id'', ''g1'')]"
    by (simp add: GetUsers_def listGroupUsers_filters X0_def)
  then show ?thesis
    using GetUsers_rewrites_filters [of X0 "[(''group_id'', ''g1''), (''user_name'', ''al*'')]"
        "''g1''" 0 10 "world_of db_two []"]
    by (simp add: X0_def)
qed

end
